theory Spec2Isabelle
  imports Complex_Main "HOL-Library.Log_Nat"
begin

section \<open>Domain types (package domain)\<close>

text \<open>
  A \<open>time.Time\<close> is an instant, counted in nanoseconds from the Unix epoch (UTC); a
  \<open>time.Duration\<close> is a number of nanoseconds held in a signed 64-bit integer.
  \<open>Before\<close> and \<open>After\<close> are the strict orders on instants, \<open>Add\<close> shifts an
  instant, and \<open>Sub\<close> saturates at the largest and smallest duration, as the library does.
\<close>

type_synonym time = int
type_synonym duration = int

definition Minute :: duration where
  "Minute = 60000000000"

definition Hour :: duration where
  "Hour = 3600000000000"

definition maxDuration :: duration where
  "maxDuration = 2 ^ 63 - 1"

definition minDuration :: duration where
  "minDuration = - (2 ^ 63)"

definition time_Before :: "time \<Rightarrow> time \<Rightarrow> bool" where
  "time_Before t u = (t < u)"

definition time_After :: "time \<Rightarrow> time \<Rightarrow> bool" where
  "time_After t u = (u < t)"

definition time_Add :: "time \<Rightarrow> duration \<Rightarrow> time" where
  "time_Add t d = t + d"

definition time_Sub :: "time \<Rightarrow> time \<Rightarrow> duration" where
  "time_Sub t u =
     (if t - u > maxDuration then maxDuration
      else if t - u < minDuration then minDuration
      else t - u)"

definition time_Hour :: "time \<Rightarrow> int" where
  "time_Hour t = (t div Hour) mod 24"

text \<open>
  A \<open>float64\<close> is a finite value, given by the rational number it stands for, an
  infinity or NaN. The two zeros are one value: the code compares a zero with other values
  and never divides by a zero. The comparisons of two \<open>float64\<close> are exact, and false when one of them is
  NaN.
\<close>

datatype float64 = Finite rat | PosInf | NegInf | NaN

fun float_lt :: "float64 \<Rightarrow> float64 \<Rightarrow> bool" where
  "float_lt NaN y = False"
| "float_lt x NaN = False"
| "float_lt (Finite a) (Finite b) = (a < b)"
| "float_lt (Finite a) PosInf = True"
| "float_lt (Finite a) NegInf = False"
| "float_lt NegInf NegInf = False"
| "float_lt NegInf y = True"
| "float_lt PosInf y = False"

definition float_gt :: "float64 \<Rightarrow> float64 \<Rightarrow> bool" where
  "float_gt x y = float_lt y x"

definition float_ge :: "float64 \<Rightarrow> float64 \<Rightarrow> bool" where
  "float_ge x y = (x \<noteq> NaN \<and> y \<noteq> NaN \<and> (float_lt y x \<or> x = y))"

text \<open>
  The addition and the division of two \<open>float64\<close> and the conversion of an \<open>int\<close>
  to a \<open>float64\<close> round their results. They belong to the language, not to this
  repository: they are the argument \<open>fl\<close> of every function that computes with them.
\<close>

record float_ops =
  f_add :: "float64 \<Rightarrow> float64 \<Rightarrow> float64"
  f_div :: "float64 \<Rightarrow> float64 \<Rightarrow> float64"
  f_of_int :: "int \<Rightarrow> float64"

text \<open>
  The division and the remainder of two \<open>int\<close> truncate towards zero.
  \<open>Duration.Minutes\<close> and \<open>Duration.Hours\<close> of the library convert the whole units
  and add the remaining nanoseconds divided by the unit.
\<close>

definition go_quot :: "int \<Rightarrow> int \<Rightarrow> int" where
  "go_quot a b = sgn a * sgn b * (\<bar>a\<bar> div \<bar>b\<bar>)"

definition go_rem :: "int \<Rightarrow> int \<Rightarrow> int" where
  "go_rem a b = a - go_quot a b * b"

definition duration_Minutes :: "float_ops \<Rightarrow> duration \<Rightarrow> float64" where
  "duration_Minutes fl d =
     f_add fl (f_of_int fl (go_quot d Minute))
       (f_div fl (f_of_int fl (go_rem d Minute)) (Finite 60000000000))"

definition duration_Hours :: "float_ops \<Rightarrow> duration \<Rightarrow> float64" where
  "duration_Hours fl d =
     f_add fl (f_of_int fl (go_quot d Hour))
       (f_div fl (f_of_int fl (go_rem d Hour)) (Finite 3600000000000))"

text \<open>
  Text built by \<open>fmt.Sprintf\<close> and \<open>strings.Join\<close> is kept as the call itself: the
  format string with its arguments, not the rendered characters.
\<close>

datatype rendered = Lit string | Sprintf string "fmt_arg list" | Join "rendered list" string
and fmt_arg = ArgS string | ArgD int | ArgF float64 | ArgR rendered

definition RiskLow :: string where "RiskLow = ''low''"
definition RiskMedium :: string where "RiskMedium = ''medium''"
definition RiskHigh :: string where "RiskHigh = ''high''"

definition ActionApprove :: string where "ActionApprove = ''approve''"
definition ActionReview :: string where "ActionReview = ''review''"
definition ActionDecline :: string where "ActionDecline = ''decline''"

definition EntityEmail :: string where "EntityEmail = ''email''"
definition EntityIP :: string where "EntityIP = ''ip''"
definition EntityBIN :: string where "EntityBIN = ''bin''"
definition EntityDevice :: string where "EntityDevice = ''device''"

definition ListBlock :: string where "ListBlock = ''block''"
definition ListAllow :: string where "ListAllow = ''allow''"

definition ThresholdApprove :: int where "ThresholdApprove = 30"
definition ThresholdReview :: int where "ThresholdReview = 70"

record TransactionRequest =
  TransactionID :: string
  Timestamp :: time
  Amount :: float64
  Currency :: string
  UserEmail :: string
  IPAddress :: string
  IPCountry :: string
  CardBIN :: string
  CardCountry :: string
  DeviceFingerprint :: string
  AccountCreatedAt :: time
  MerchantCountry :: string

record RiskFactor =
  Name :: string
  Description :: rendered
  ScoreDelta :: int

text \<open>A \<open>Transaction\<close> embeds the request and adds the result of its analysis.\<close>

record Transaction = TransactionRequest +
  RiskScore :: int
  RiskLevel :: string
  Recommendation :: string
  Factors :: "RiskFactor list"
  Explanation :: rendered
  ProcessedAt :: time

record BlocklistEntry =
  ID :: string
  Type :: string
  Value :: string
  ListType :: string
  Reason :: string
  CreatedAt :: time
  ExpiresAt :: "time option"

record WebhookConfig =
  wh_ID :: string
  wh_URL :: string
  wh_Threshold :: int
  wh_CreatedAt :: time
  wh_Active :: bool

section \<open>The store (package store)\<close>

text \<open>
  Every Go map is a partial function. The inner map of \<open>cardsByIP\<close> only ever holds the
  value \<open>true\<close>, so it is the set of its keys; a missing or nil inner map is \<open>None\<close>.
  Records are held by value: the model covers what the store's own methods do to them.
\<close>

record Store =
  transactions :: "string \<rightharpoonup> Transaction"
  blocklist :: "string \<rightharpoonup> BlocklistEntry"
  webhooks :: "string \<rightharpoonup> WebhookConfig"
  txByEmail :: "string \<rightharpoonup> string list"
  txByIP :: "string \<rightharpoonup> string list"
  txByDevice :: "string \<rightharpoonup> string list"
  txByBIN :: "string \<rightharpoonup> string list"
  cardsByIP :: "string \<rightharpoonup> string set"

datatype store_error = ErrDuplicateTransaction

definition New :: Store where
  "New = \<lparr>transactions = Map.empty, blocklist = Map.empty, webhooks = Map.empty,
          txByEmail = Map.empty, txByIP = Map.empty, txByDevice = Map.empty,
          txByBIN = Map.empty, cardsByIP = Map.empty\<rparr>"

text \<open>Reading a slice-valued map at a missing key gives the nil slice.\<close>

definition ids_at :: "(string \<rightharpoonup> string list) \<Rightarrow> string \<Rightarrow> string list" where
  "ids_at m k = (case m k of None \<Rightarrow> [] | Some ids \<Rightarrow> ids)"

definition cards_at :: "(string \<rightharpoonup> string set) \<Rightarrow> string \<Rightarrow> string set" where
  "cards_at m k = (case m k of None \<Rightarrow> {} | Some c \<Rightarrow> c)"

text \<open>
  \<open>range m\<close> visits every key of a map once, in an order the language leaves open. The
  order of one run is an argument \<open>ks\<close> of the model: the values come out in that order.
  \<open>range_order ks m\<close> says that \<open>ks\<close> is such an order for \<open>m\<close>.
\<close>

fun range_values :: "('k \<rightharpoonup> 'v) \<Rightarrow> 'k list \<Rightarrow> 'v list" where
  "range_values m [] = []"
| "range_values m (k # ks) =
     (case m k of None \<Rightarrow> range_values m ks | Some v \<Rightarrow> v # range_values m ks)"

definition range_order :: "'k list \<Rightarrow> ('k \<rightharpoonup> 'v) \<Rightarrow> bool" where
  "range_order ks m = (distinct ks \<and> set ks = dom m)"

text \<open>
  Every method returns, next to its result, the store it leaves behind. A method whose
  body assigns to no field of the store returns the store it was given.
\<close>

definition SaveTransaction :: "Transaction \<Rightarrow> Store \<Rightarrow> store_error option \<times> Store" where
  "SaveTransaction tx s =
     (if transactions s (TransactionID tx) \<noteq> None then (Some ErrDuplicateTransaction, s)
      else (None,
        s\<lparr>transactions := (transactions s)(TransactionID tx \<mapsto> tx),
          txByEmail := (txByEmail s)(UserEmail tx \<mapsto>
                          ids_at (txByEmail s) (UserEmail tx) @ [TransactionID tx]),
          txByIP := (txByIP s)(IPAddress tx \<mapsto>
                          ids_at (txByIP s) (IPAddress tx) @ [TransactionID tx]),
          txByDevice := (txByDevice s)(DeviceFingerprint tx \<mapsto>
                          ids_at (txByDevice s) (DeviceFingerprint tx) @ [TransactionID tx]),
          txByBIN := (txByBIN s)(CardBIN tx \<mapsto>
                          ids_at (txByBIN s) (CardBIN tx) @ [TransactionID tx]),
          cardsByIP := (cardsByIP s)(IPAddress tx \<mapsto>
                          insert (CardBIN tx) (cards_at (cardsByIP s) (IPAddress tx)))\<rparr>))"

definition GetTransaction :: "string \<Rightarrow> Store \<Rightarrow> Transaction option \<times> Store" where
  "GetTransaction ident s = (transactions s ident, s)"

fun filterByTime_loop :: "(string \<rightharpoonup> Transaction) \<Rightarrow> string list \<Rightarrow> time \<Rightarrow> Transaction list" where
  "filterByTime_loop m [] since = []"
| "filterByTime_loop m (ident # ids) since =
     (case m ident of
        None \<Rightarrow> filterByTime_loop m ids since
      | Some tx \<Rightarrow>
          if \<not> time_Before (Timestamp tx) since then tx # filterByTime_loop m ids since
          else filterByTime_loop m ids since)"

definition filterByTime :: "string list \<Rightarrow> time \<Rightarrow> Store \<Rightarrow> Transaction list \<times> Store" where
  "filterByTime ids since s = (filterByTime_loop (transactions s) ids since, s)"

definition GetTransactionsByEmail :: "string \<Rightarrow> time \<Rightarrow> Store \<Rightarrow> Transaction list \<times> Store" where
  "GetTransactionsByEmail email since s = filterByTime (ids_at (txByEmail s) email) since s"

definition GetTransactionsByIP :: "string \<Rightarrow> time \<Rightarrow> Store \<Rightarrow> Transaction list \<times> Store" where
  "GetTransactionsByIP ip since s = filterByTime (ids_at (txByIP s) ip) since s"

definition GetTransactionsByDevice :: "string \<Rightarrow> time \<Rightarrow> Store \<Rightarrow> Transaction list \<times> Store" where
  "GetTransactionsByDevice device since s = filterByTime (ids_at (txByDevice s) device) since s"

definition GetTransactionsByBIN :: "string \<Rightarrow> time \<Rightarrow> Store \<Rightarrow> Transaction list \<times> Store" where
  "GetTransactionsByBIN bin since s = filterByTime (ids_at (txByBIN s) bin) since s"

definition GetUniqueCardsByIP :: "string \<Rightarrow> Store \<Rightarrow> int \<times> Store" where
  "GetUniqueCardsByIP ip s = (int (card (cards_at (cardsByIP s) ip)), s)"

definition GetAllTransactions :: "string list \<Rightarrow> time \<Rightarrow> Store \<Rightarrow> Transaction list \<times> Store" where
  "GetAllTransactions ks since s =
     (filter (\<lambda>tx. \<not> time_Before (Timestamp tx) since) (range_values (transactions s) ks), s)"

definition SaveBlocklistEntry :: "BlocklistEntry \<Rightarrow> Store \<Rightarrow> unit \<times> Store" where
  "SaveBlocklistEntry entry s = ((), s\<lparr>blocklist := (blocklist s)(ID entry \<mapsto> entry)\<rparr>)"

definition DeleteBlocklistEntry :: "string \<Rightarrow> Store \<Rightarrow> bool \<times> Store" where
  "DeleteBlocklistEntry ident s =
     (if blocklist s ident \<noteq> None then (True, s\<lparr>blocklist := (blocklist s)(ident := None)\<rparr>)
      else (False, s))"

text \<open>
  \<open>CheckBlocklist\<close> and \<open>ListBlocklistEntries\<close> read the clock once; the reading is the
  argument \<open>now\<close>.
\<close>

fun CheckBlocklist_loop :: "time \<Rightarrow> string \<Rightarrow> string \<Rightarrow> BlocklistEntry list \<Rightarrow> BlocklistEntry option" where
  "CheckBlocklist_loop now entityType v [] = None"
| "CheckBlocklist_loop now entityType v (entry # es) =
     (if Type entry \<noteq> entityType \<or> Value entry \<noteq> v then CheckBlocklist_loop now entityType v es
      else if (case ExpiresAt entry of None \<Rightarrow> False | Some x \<Rightarrow> time_Before x now)
        then CheckBlocklist_loop now entityType v es
      else Some entry)"

definition CheckBlocklist :: "time \<Rightarrow> string list \<Rightarrow> string \<Rightarrow> string \<Rightarrow> Store \<Rightarrow> BlocklistEntry option \<times> Store" where
  "CheckBlocklist now ks entityType v s =
     (CheckBlocklist_loop now entityType v (range_values (blocklist s) ks), s)"

definition ListBlocklistEntries :: "time \<Rightarrow> string list \<Rightarrow> Store \<Rightarrow> BlocklistEntry list \<times> Store" where
  "ListBlocklistEntries now ks s =
     (filter (\<lambda>entry. case ExpiresAt entry of None \<Rightarrow> True | Some x \<Rightarrow> time_After x now)
        (range_values (blocklist s) ks), s)"

definition SaveWebhook :: "WebhookConfig \<Rightarrow> Store \<Rightarrow> unit \<times> Store" where
  "SaveWebhook wh s = ((), s\<lparr>webhooks := (webhooks s)(wh_ID wh \<mapsto> wh)\<rparr>)"

definition DeleteWebhook :: "string \<Rightarrow> Store \<Rightarrow> bool \<times> Store" where
  "DeleteWebhook ident s =
     (if webhooks s ident \<noteq> None then (True, s\<lparr>webhooks := (webhooks s)(ident := None)\<rparr>)
      else (False, s))"

definition ListActiveWebhooks :: "string list \<Rightarrow> Store \<Rightarrow> WebhookConfig list \<times> Store" where
  "ListActiveWebhooks ks s = (filter wh_Active (range_values (webhooks s) ks), s)"

text \<open>
  A call of one of the store's public methods, with its arguments, the clock reading and
  the iteration order where the method uses them. \<open>run\<close> performs a sequence of calls and
  gives the store they leave.
\<close>

datatype store_op =
    OpSaveTransaction Transaction
  | OpGetTransaction string
  | OpGetTransactionsByEmail string time
  | OpGetTransactionsByIP string time
  | OpGetTransactionsByDevice string time
  | OpGetTransactionsByBIN string time
  | OpGetUniqueCardsByIP string
  | OpGetAllTransactions "string list" time
  | OpSaveBlocklistEntry BlocklistEntry
  | OpDeleteBlocklistEntry string
  | OpCheckBlocklist time "string list" string string
  | OpListBlocklistEntries time "string list"
  | OpSaveWebhook WebhookConfig
  | OpDeleteWebhook string
  | OpListActiveWebhooks "string list"

fun apply_op :: "store_op \<Rightarrow> Store \<Rightarrow> Store" where
  "apply_op (OpSaveTransaction tx) s = snd (SaveTransaction tx s)"
| "apply_op (OpGetTransaction ident) s = snd (GetTransaction ident s)"
| "apply_op (OpGetTransactionsByEmail v since) s = snd (GetTransactionsByEmail v since s)"
| "apply_op (OpGetTransactionsByIP v since) s = snd (GetTransactionsByIP v since s)"
| "apply_op (OpGetTransactionsByDevice v since) s = snd (GetTransactionsByDevice v since s)"
| "apply_op (OpGetTransactionsByBIN v since) s = snd (GetTransactionsByBIN v since s)"
| "apply_op (OpGetUniqueCardsByIP ip) s = snd (GetUniqueCardsByIP ip s)"
| "apply_op (OpGetAllTransactions ks since) s = snd (GetAllTransactions ks since s)"
| "apply_op (OpSaveBlocklistEntry entry) s = snd (SaveBlocklistEntry entry s)"
| "apply_op (OpDeleteBlocklistEntry ident) s = snd (DeleteBlocklistEntry ident s)"
| "apply_op (OpCheckBlocklist now ks entityType v) s = snd (CheckBlocklist now ks entityType v s)"
| "apply_op (OpListBlocklistEntries now ks) s = snd (ListBlocklistEntries now ks s)"
| "apply_op (OpSaveWebhook wh) s = snd (SaveWebhook wh s)"
| "apply_op (OpDeleteWebhook ident) s = snd (DeleteWebhook ident s)"
| "apply_op (OpListActiveWebhooks ks) s = snd (ListActiveWebhooks ks s)"

fun run :: "store_op list \<Rightarrow> Store \<Rightarrow> Store" where
  "run [] s = s"
| "run (op # ops) s = run ops (apply_op op s)"

section \<open>The scoring engine (package scoring)\<close>

text \<open>
  A Go \<open>int\<close> has 64 bits. The integers of the engine are lengths of lists, small
  multiples of them and sums of at most seventeen deltas of at most 100, far from the
  bounds, so they are modelled by unbounded integers. The rules that compute with
  \<open>float64\<close> values take the arithmetic \<open>fl\<close>.
\<close>

record ruleContext =
  req :: TransactionRequest
  emailLast24h :: "Transaction list"
  emailLast10m :: "Transaction list"
  ipLast1h :: "Transaction list"
  deviceLast30m :: "Transaction list"
  binLast1h :: "Transaction list"
  uniqueCardsByIP :: int

definition clamp :: "int \<Rightarrow> int \<Rightarrow> int \<Rightarrow> int" where
  "clamp v lo hi = (if v < lo then lo else if v > hi then hi else v)"

definition isLATAM :: "string \<Rightarrow> bool" where
  "isLATAM country \<longleftrightarrow>
     country \<in> set [''BR'', ''MX'', ''AR'', ''CO'', ''CL'', ''PE'', ''VE'', ''EC'', ''BO'', ''PY'',
                    ''UY'', ''CR'', ''PA'']"

definition isHighRiskCountry :: "string \<Rightarrow> bool" where
  "isHighRiskCountry country \<longleftrightarrow>
     country \<in> set [''RU'', ''NG'', ''UA'', ''CN'', ''VN'', ''PK'', ''KP'', ''RO'', ''GH'', ''TZ'']"

definition highRiskBINs :: "string list" where
  "highRiskBINs = [''400000'', ''411111'', ''420000'', ''490000'', ''510000'', ''520000'',
                   ''552000'', ''601100'']"

definition isHighRiskBIN :: "string \<Rightarrow> bool" where
  "isHighRiskBIN bin \<longleftrightarrow> bin \<in> set highRiskBINs"

definition prepaidBINs :: "string list" where
  "prepaidBINs = [''472297'', ''483317'', ''491528'', ''523274'', ''535350'', ''544107'']"

definition isPrepaidBIN :: "string \<Rightarrow> bool" where
  "isPrepaidBIN bin \<longleftrightarrow> bin \<in> set prepaidBINs"

definition buildExplanation :: "int \<Rightarrow> RiskFactor list \<Rightarrow> rendered" where
  "buildExplanation score factors =
     (if length factors = 0
      then Sprintf ''Risk Score: %d. No significant fraud indicators detected.'' [ArgD score]
      else Sprintf ''Risk Score: %d. Factors: %s.''
             [ArgD score,
              ArgR (Join (map (\<lambda>f. if ScoreDelta f > 0
                                     then Sprintf ''%s (+%d)'' [ArgR (Description f), ArgD (ScoreDelta f)]
                                     else Description f) factors) ''; '')])"

definition Recommend :: "int \<Rightarrow> string \<times> string" where
  "Recommend score =
     (if score \<le> ThresholdApprove then (ActionApprove, RiskLow)
      else if score \<le> ThresholdReview then (ActionReview, RiskMedium)
      else (ActionDecline, RiskHigh))"

definition buildContext :: "TransactionRequest \<Rightarrow> Store \<Rightarrow> ruleContext \<times> Store" where
  "buildContext rq s0 =
     (let t = Timestamp rq;
          (e24, s1) = GetTransactionsByEmail (UserEmail rq) (time_Add t (- 24 * Hour)) s0;
          (e10, s2) = GetTransactionsByEmail (UserEmail rq) (time_Add t (- 10 * Minute)) s1;
          (ip1, s3) = GetTransactionsByIP (IPAddress rq) (time_Add t (- 1 * Hour)) s2;
          (d30, s4) = GetTransactionsByDevice (DeviceFingerprint rq) (time_Add t (- 30 * Minute)) s3;
          (b1, s5) = GetTransactionsByBIN (CardBIN rq) (time_Add t (- 1 * Hour)) s4;
          (uc, s6) = GetUniqueCardsByIP (IPAddress rq) s5
      in (\<lparr>req = rq, emailLast24h = e24, emailLast10m = e10, ipLast1h = ip1,
           deviceLast30m = d30, binLast1h = b1, uniqueCardsByIP = uc\<rparr>, s6))"

text \<open>
  \<open>checkLists\<close> makes up to four lookups. The \<open>i\<close>-th lookup reads the clock and ranges
  over the blocklist on its own: \<open>envs i\<close> is its clock reading and its iteration order.
\<close>

fun checkLists_loop ::
  "(nat \<Rightarrow> time \<times> string list) \<Rightarrow> nat \<Rightarrow> (string \<times> string) list \<Rightarrow> Store
     \<Rightarrow> BlocklistEntry option \<times> Store" where
  "checkLists_loop envs i [] s = (None, s)"
| "checkLists_loop envs i ((typ, v) # cs) s =
     (case CheckBlocklist (fst (envs i)) (snd (envs i)) typ v s of
        (Some entry, s') \<Rightarrow> (Some entry, s')
      | (None, s') \<Rightarrow> checkLists_loop envs (Suc i) cs s')"

definition checkLists ::
  "(nat \<Rightarrow> time \<times> string list) \<Rightarrow> TransactionRequest \<Rightarrow> Store \<Rightarrow> BlocklistEntry option \<times> Store" where
  "checkLists envs rq s =
     checkLists_loop envs 0
       [(EntityEmail, UserEmail rq), (EntityIP, IPAddress rq), (EntityBIN, CardBIN rq),
        (EntityDevice, DeviceFingerprint rq)] s"

definition ruleVelocityEmail :: "ruleContext \<Rightarrow> RiskFactor list" where
  "ruleVelocityEmail ctx =
     (let n = int (length (emailLast24h ctx)) in
        if n \<ge> 2
        then [\<lparr>Name = ''email_velocity_24h'',
               Description = Sprintf ''Email used in %d transactions in the last 24 hours'' [ArgD n],
               ScoreDelta = clamp (5 * n) 0 25\<rparr>]
        else []) @
     (let n = int (length (emailLast10m ctx)) in
        if n \<ge> 2
        then [\<lparr>Name = ''email_velocity_10min'',
               Description = Sprintf ''Email used in %d transactions in the last 10 minutes'' [ArgD n],
               ScoreDelta = clamp (10 * n) 0 30\<rparr>]
        else [])"

definition ruleVelocityIP :: "ruleContext \<Rightarrow> RiskFactor list" where
  "ruleVelocityIP ctx =
     (let n = int (length (ipLast1h ctx)) in
        if n \<ge> 3
        then [\<lparr>Name = ''ip_velocity_1h'',
               Description = Sprintf ''IP address used in %d transactions in the last hour'' [ArgD n],
               ScoreDelta = clamp (8 * n) 0 30\<rparr>]
        else [])"

definition ruleVelocityDevice :: "ruleContext \<Rightarrow> RiskFactor list" where
  "ruleVelocityDevice ctx =
     (let n = int (length (deviceLast30m ctx)) in
        if n \<ge> 2
        then [\<lparr>Name = ''device_velocity_30min'',
               Description = Sprintf
                 ''Device fingerprint used in %d transactions in the last 30 minutes'' [ArgD n],
               ScoreDelta = clamp (12 * n) 0 30\<rparr>]
        else [])"

text \<open>
  In \<open>ruleVelocityCardCycling\<close> the map \<open>emails\<close> collects the distinct e-mail addresses
  of the list; its length is the number of distinct addresses.
\<close>

definition ruleVelocityCardCycling :: "ruleContext \<Rightarrow> RiskFactor list" where
  "ruleVelocityCardCycling ctx =
     (if uniqueCardsByIP ctx \<ge> 3
      then [\<lparr>Name = ''card_cycling_ip'',
             Description = Sprintf
               ''IP address has used %d different card BINs (possible card cycling)''
               [ArgD (uniqueCardsByIP ctx)],
             ScoreDelta = clamp (8 * uniqueCardsByIP ctx) 0 30\<rparr>]
      else []) @
     (if int (length (binLast1h ctx)) \<ge> 5
      then (let emails = int (length (remdups (map UserEmail (binLast1h ctx)))) in
              if emails > 1
              then [\<lparr>Name = ''bin_velocity_multi_user'',
                     Description = Sprintf
                       ''Card BIN used by %d different accounts in the last hour'' [ArgD emails],
                     ScoreDelta = clamp (8 * emails) 0 25\<rparr>]
              else [])
      else [])"

text \<open>
  \<open>strings.ToUpper\<close> belongs to the standard library, not to this repository: it is the
  argument \<open>ToUpper\<close> of the rules that use it.
\<close>

definition ruleGeography :: "(string \<Rightarrow> string) \<Rightarrow> ruleContext \<Rightarrow> RiskFactor list" where
  "ruleGeography ToUpper ctx =
     (let ip = ToUpper (IPCountry (req ctx));
          crd = ToUpper (CardCountry (req ctx));
          merchant = ToUpper (MerchantCountry (req ctx))
      in
        (if ip \<noteq> [] \<and> crd \<noteq> [] \<and> ip \<noteq> crd
         then [\<lparr>Name = ''geo_ip_card_mismatch'',
                Description = Sprintf
                  ''IP country (%s) doesn't match card issuing country (%s)'' [ArgS ip, ArgS crd],
                ScoreDelta = 25\<rparr>]
         else []) @
        (if ip \<noteq> [] \<and> merchant \<noteq> [] \<and> ip \<noteq> merchant \<and> \<not> isLATAM ip
         then [\<lparr>Name = ''geo_ip_merchant_mismatch'',
                Description = Sprintf
                  ''IP country (%s) doesn't match merchant country (%s)'' [ArgS ip, ArgS merchant],
                ScoreDelta = 10\<rparr>]
         else []) @
        (if isHighRiskCountry ip
         then [\<lparr>Name = ''geo_high_risk_country'',
                Description = Sprintf
                  ''Transaction originated from high-risk country (%s)'' [ArgS ip],
                ScoreDelta = 15\<rparr>]
         else []) @
        (if ip \<noteq> [] \<and> crd \<noteq> [] \<and> merchant \<noteq> [] \<and> ip \<noteq> crd \<and> crd \<noteq> merchant
              \<and> ip \<noteq> merchant
         then [\<lparr>Name = ''geo_three_way_mismatch'',
                Description = Lit
                  ''IP country, card country, and merchant country are all different'',
                ScoreDelta = 10\<rparr>]
         else []))"

definition ruleAccountAge :: "float_ops \<Rightarrow> ruleContext \<Rightarrow> RiskFactor list" where
  "ruleAccountAge fl ctx =
     (let age = time_Sub (Timestamp (req ctx)) (AccountCreatedAt (req ctx)) in
        if age < Hour
        then [\<lparr>Name = ''account_age_critical'',
               Description = Sprintf ''Account created %.0f minutes ago (very new)''
                 [ArgF (duration_Minutes fl age)],
               ScoreDelta = 25\<rparr>]
        else if age < 24 * Hour
        then [\<lparr>Name = ''account_age_new'',
               Description = Sprintf ''Account created %.0f hours ago''
                 [ArgF (duration_Hours fl age)],
               ScoreDelta = 15\<rparr>]
        else if age < 7 * 24 * Hour
        then [\<lparr>Name = ''account_age_week'',
               Description = Sprintf ''Account created %.0f days ago''
                 [ArgF (f_div fl (duration_Hours fl age) (Finite 24))],
               ScoreDelta = 5\<rparr>]
        else [])"

text \<open>
  In \<open>rulePurchaseBehaviour\<close> the loop adds the amounts of the list to the total one
  after the other, starting from 0, in the order of the list.
\<close>

definition rulePurchaseBehaviour :: "float_ops \<Rightarrow> ruleContext \<Rightarrow> RiskFactor list" where
  "rulePurchaseBehaviour fl ctx =
     (let history = emailLast24h ctx in
        if length history = 0
        then [\<lparr>Name = ''first_transaction'',
               Description =
                 (if float_gt (Amount (req ctx)) (Finite 50)
                  then Sprintf ''First transaction with a high amount ($%.2f)''
                         [ArgF (Amount (req ctx))]
                  else Lit ''First transaction recorded for this email address''),
               ScoreDelta = (if float_gt (Amount (req ctx)) (Finite 50) then 15 else 5)\<rparr>]
        else
          (let total = foldl (\<lambda>total tx. f_add fl total (Amount tx)) (Finite 0) history;
               avg = f_div fl total (f_of_int fl (int (length history)))
           in if float_gt avg (Finite 0)
              then (let ratio = f_div fl (Amount (req ctx)) avg in
                      if float_ge ratio (Finite 10)
                      then [\<lparr>Name = ''amount_anomaly_extreme'',
                             Description = Sprintf
                               ''Amount is %.1fx the user's 24h average ($%.2f avg)''
                               [ArgF ratio, ArgF avg],
                             ScoreDelta = 30\<rparr>]
                      else if float_ge ratio (Finite 5)
                      then [\<lparr>Name = ''amount_anomaly_high'',
                             Description = Sprintf
                               ''Amount is %.1fx the user's 24h average ($%.2f avg)''
                               [ArgF ratio, ArgF avg],
                             ScoreDelta = 20\<rparr>]
                      else if float_ge ratio (Finite 3)
                      then [\<lparr>Name = ''amount_anomaly_medium'',
                             Description = Sprintf
                               ''Amount is %.1fx the user's 24h average ($%.2f avg)''
                               [ArgF ratio, ArgF avg],
                             ScoreDelta = 10\<rparr>]
                      else [])
              else []))"

definition ruleCardBIN :: "ruleContext \<Rightarrow> RiskFactor list" where
  "ruleCardBIN ctx =
     (let bin = CardBIN (req ctx) in
        if isHighRiskBIN bin
        then [\<lparr>Name = ''bin_high_risk'',
               Description = Sprintf ''Card BIN %s is flagged for high fraud association''
                 [ArgS bin],
               ScoreDelta = 30\<rparr>]
        else if isPrepaidBIN bin
        then [\<lparr>Name = ''bin_prepaid'',
               Description = Sprintf
                 ''Card BIN %s is a prepaid card (commonly used in chargebacks)'' [ArgS bin],
               ScoreDelta = 15\<rparr>]
        else [])"

definition ruleTiming :: "ruleContext \<Rightarrow> RiskFactor list" where
  "ruleTiming ctx =
     (let hour = time_Hour (Timestamp (req ctx)) in
        if hour \<ge> 2 \<and> hour < 6
        then [\<lparr>Name = ''off_hours'',
               Description = Sprintf
                 (''Transaction at %02d:00 UTC (off-hours 02:00'' @ [CHR 0xE2, CHR 0x80, CHR 0x93]
                    @ ''06:00)'') [ArgD hour],
               ScoreDelta = 10\<rparr>]
        else [])"

definition rules ::
  "(string \<Rightarrow> string) \<Rightarrow> float_ops \<Rightarrow> (ruleContext \<Rightarrow> RiskFactor list) list" where
  "rules ToUpper fl =
     [ruleVelocityEmail, ruleVelocityIP, ruleVelocityDevice, ruleVelocityCardCycling,
      ruleGeography ToUpper, ruleAccountAge fl, rulePurchaseBehaviour fl, ruleCardBIN,
      ruleTiming]"

text \<open>
  \<open>Score_rules\<close> is the part of \<open>Score\<close> that follows the override check: it builds the
  context, runs the rules in order, sums the deltas and clamps the sum. \<open>Score\<close> reaches
  it when no entry was hit, and also when the entry hit is neither a block nor an allow
  entry, since the \<open>switch\<close> has no case for it.
\<close>

definition Score_rules ::
  "(string \<Rightarrow> string) \<Rightarrow> float_ops \<Rightarrow> TransactionRequest \<Rightarrow> Store
     \<Rightarrow> (int \<times> RiskFactor list \<times> rendered) \<times> Store" where
  "Score_rules ToUpper fl rq s1 =
     (let (ctx, s2) = buildContext rq s1;
          factors = concat (map (\<lambda>rule. rule ctx) (rules ToUpper fl));
          total = sum_list (map ScoreDelta factors);
          total = (if total < 0 then 0 else total);
          total = (if total > 100 then 100 else total)
      in ((total, factors, buildExplanation total factors), s2))"

definition Score ::
  "(string \<Rightarrow> string) \<Rightarrow> float_ops \<Rightarrow> (nat \<Rightarrow> time \<times> string list) \<Rightarrow> TransactionRequest
     \<Rightarrow> Store \<Rightarrow> (int \<times> RiskFactor list \<times> rendered) \<times> Store" where
  "Score ToUpper fl envs rq s0 =
     (case checkLists envs rq s0 of
        (Some entry, s1) \<Rightarrow>
          if ListType entry = ListBlock
          then (let f = \<lparr>Name = ''blocklist_match'',
                         Description = Sprintf ''%s '%s' is on the blocklist: %s''
                           [ArgS (Type entry), ArgS (Value entry), ArgS (Reason entry)],
                         ScoreDelta = 100\<rparr>
                in ((100, [f], buildExplanation 100 [f]), s1))
          else if ListType entry = ListAllow
          then (let f = \<lparr>Name = ''allowlist_match'',
                         Description = Sprintf ''%s '%s' is on the allowlist: %s''
                           [ArgS (Type entry), ArgS (Value entry), ArgS (Reason entry)],
                         ScoreDelta = 0\<rparr>
                in ((0, [f], buildExplanation 0 [f]), s1))
          else Score_rules ToUpper fl rq s1
      | (None, s1) \<Rightarrow> Score_rules ToUpper fl rq s1)"

text \<open>\<open>hasFactorName\<close> is the helper of the engine's tests.\<close>

definition hasFactorName :: "RiskFactor list \<Rightarrow> string \<Rightarrow> bool" where
  "hasFactorName factors name = (\<exists>f \<in> set factors. Name f = name)"

text \<open>
  The switch of the entity-summary handler, which sends an entity type to the store's
  lookup for it. The handler rejects any other type before the switch; the switch itself
  leaves the result empty for it. \<open>entityField\<close> is the field of a record that the
  lookup for an entity type is keyed by.
\<close>

definition queryByEntity :: "string \<Rightarrow> string \<Rightarrow> time \<Rightarrow> Store \<Rightarrow> Transaction list \<times> Store" where
  "queryByEntity entityType entityValue since s =
     (if entityType = EntityEmail then GetTransactionsByEmail entityValue since s
      else if entityType = EntityIP then GetTransactionsByIP entityValue since s
      else if entityType = EntityBIN then GetTransactionsByBIN entityValue since s
      else if entityType = EntityDevice then GetTransactionsByDevice entityValue since s
      else ([], s))"

definition entityField :: "string \<Rightarrow> Transaction \<Rightarrow> string" where
  "entityField entityType tx =
     (if entityType = EntityEmail then UserEmail tx
      else if entityType = EntityIP then IPAddress tx
      else if entityType = EntityBIN then CardBIN tx
      else DeviceFingerprint tx)"

text \<open>The three values that \<open>Score\<close> returns, read off the model's result.\<close>

definition result_score :: "(int \<times> RiskFactor list \<times> rendered) \<times> Store \<Rightarrow> int" where
  "result_score r = fst (fst r)"

definition result_factors :: "(int \<times> RiskFactor list \<times> rendered) \<times> Store \<Rightarrow> RiskFactor list" where
  "result_factors r = fst (snd (fst r))"

definition result_explanation :: "(int \<times> RiskFactor list \<times> rendered) \<times> Store \<Rightarrow> rendered" where
  "result_explanation r = snd (snd (fst r))"

section \<open>Notions used to state the properties\<close>

text \<open>
  An entry's expiry lies in the past at \<open>now\<close> when it has one and it is before \<open>now\<close>.
  \<open>drop_expired now m\<close> is the blocklist \<open>m\<close> without the entries whose expiry lies in
  the past, and \<open>matches_unexpired\<close> is what a lookup looks for.
\<close>

definition expiry_in_past :: "time \<Rightarrow> BlocklistEntry \<Rightarrow> bool" where
  "expiry_in_past now entry = (case ExpiresAt entry of None \<Rightarrow> False | Some x \<Rightarrow> x < now)"

definition drop_expired :: "time \<Rightarrow> (string \<rightharpoonup> BlocklistEntry) \<Rightarrow> (string \<rightharpoonup> BlocklistEntry)" where
  "drop_expired now m =
     (\<lambda>k. case m k of None \<Rightarrow> None
                    | Some entry \<Rightarrow> if expiry_in_past now entry then None else Some entry)"

definition matches_unexpired :: "time \<Rightarrow> string \<Rightarrow> string \<Rightarrow> BlocklistEntry \<Rightarrow> bool" where
  "matches_unexpired now entityType v entry =
     (Type entry = entityType \<and> Value entry = v \<and> \<not> expiry_in_past now entry)"

text \<open>
  The identifiers are filed consistently when every stored record is under its own
  identifier, that identifier is in the four indexes at the record's e-mail address, IP
  address, device fingerprint and card BIN, the card BIN is in the set of the record's IP
  address, and every identifier in an index has a record in the primary table.
\<close>

definition index_consistent :: "Store \<Rightarrow> bool" where
  "index_consistent s =
     ((\<forall>k tx. transactions s k = Some tx \<longrightarrow>
          TransactionID tx = k
          \<and> k \<in> set (ids_at (txByEmail s) (UserEmail tx))
          \<and> k \<in> set (ids_at (txByIP s) (IPAddress tx))
          \<and> k \<in> set (ids_at (txByDevice s) (DeviceFingerprint tx))
          \<and> k \<in> set (ids_at (txByBIN s) (CardBIN tx))
          \<and> CardBIN tx \<in> cards_at (cardsByIP s) (IPAddress tx))
      \<and> (\<forall>v k. k \<in> set (ids_at (txByEmail s) v) \<longrightarrow> transactions s k \<noteq> None)
      \<and> (\<forall>v k. k \<in> set (ids_at (txByIP s) v) \<longrightarrow> transactions s k \<noteq> None)
      \<and> (\<forall>v k. k \<in> set (ids_at (txByDevice s) v) \<longrightarrow> transactions s k \<noteq> None)
      \<and> (\<forall>v k. k \<in> set (ids_at (txByBIN s) v) \<longrightarrow> transactions s k \<noteq> None))"

text \<open>
  The entry found by the \<open>i\<close>-th lookup of \<open>checkLists\<close>, for an entity type and a
  value.
\<close>

definition lookup ::
  "(nat \<Rightarrow> time \<times> string list) \<Rightarrow> nat \<Rightarrow> string \<Rightarrow> string \<Rightarrow> Store \<Rightarrow> BlocklistEntry option" where
  "lookup envs i entityType v s = fst (CheckBlocklist (fst (envs i)) (snd (envs i)) entityType v s)"

text \<open>
  The invariant of the store: \<open>index_consistent\<close>, and moreover an identifier in an index
  at some key has a record whose field is that key.
\<close>

definition index_exact :: "Store \<Rightarrow> bool" where
  "index_exact s =
     ((\<forall>k tx. transactions s k = Some tx \<longrightarrow>
          TransactionID tx = k
          \<and> k \<in> set (ids_at (txByEmail s) (UserEmail tx))
          \<and> k \<in> set (ids_at (txByIP s) (IPAddress tx))
          \<and> k \<in> set (ids_at (txByDevice s) (DeviceFingerprint tx))
          \<and> k \<in> set (ids_at (txByBIN s) (CardBIN tx))
          \<and> CardBIN tx \<in> cards_at (cardsByIP s) (IPAddress tx))
      \<and> (\<forall>v k. k \<in> set (ids_at (txByEmail s) v) \<longrightarrow>
             (\<exists>tx. transactions s k = Some tx \<and> UserEmail tx = v))
      \<and> (\<forall>v k. k \<in> set (ids_at (txByIP s) v) \<longrightarrow>
             (\<exists>tx. transactions s k = Some tx \<and> IPAddress tx = v))
      \<and> (\<forall>v k. k \<in> set (ids_at (txByDevice s) v) \<longrightarrow>
             (\<exists>tx. transactions s k = Some tx \<and> DeviceFingerprint tx = v))
      \<and> (\<forall>v k. k \<in> set (ids_at (txByBIN s) v) \<longrightarrow>
             (\<exists>tx. transactions s k = Some tx \<and> CardBIN tx = v)))"

text \<open>
  The records of an e-mail address stamped within the 24 hours that end at \<open>t\<close>: at or
  after \<open>t - 24h\<close> and not after \<open>t\<close>.
\<close>

definition stored_in_24h_before :: "Store \<Rightarrow> string \<Rightarrow> time \<Rightarrow> Transaction list" where
  "stored_in_24h_before s email t =
     filter (\<lambda>tx. Timestamp tx \<le> t)
       (fst (GetTransactionsByEmail email (time_Add t (- 24 * Hour)) s))"

text \<open>
  No rule but the purchase-behaviour rule and the e-mail velocity rule gives a factor
  for a context: the request shows no other adverse signal.
\<close>

definition no_other_signal :: "(string \<Rightarrow> string) \<Rightarrow> float_ops \<Rightarrow> ruleContext \<Rightarrow> bool" where
  "no_other_signal ToUpper fl ctx =
     (ruleVelocityIP ctx = [] \<and> ruleVelocityDevice ctx = [] \<and> ruleVelocityCardCycling ctx = []
      \<and> ruleGeography ToUpper ctx = [] \<and> ruleAccountAge fl ctx = [] \<and> ruleCardBIN ctx = []
      \<and> ruleTiming ctx = [])"

text \<open>
  The mean of the amounts of a list of records as \<open>rulePurchaseBehaviour\<close> computes it:
  the amounts added one after the other in \<open>float64\<close>, starting from 0, and the total
  divided by the converted length. \<open>exact_mean\<close> is the mean of the same amounts as
  rational numbers, for a list of finite amounts.
\<close>

definition computed_mean :: "float_ops \<Rightarrow> Transaction list \<Rightarrow> float64" where
  "computed_mean fl history =
     f_div fl (foldl (\<lambda>total tx. f_add fl total (Amount tx)) (Finite 0) history)
       (f_of_int fl (int (length history)))"

definition float_value :: "float64 \<Rightarrow> rat" where
  "float_value x = (case x of Finite r \<Rightarrow> r | PosInf \<Rightarrow> 0 | NegInf \<Rightarrow> 0 | NaN \<Rightarrow> 0)"

definition exact_mean :: "Transaction list \<Rightarrow> rat" where
  "exact_mean history =
     sum_list (map (\<lambda>tx. float_value (Amount tx)) history) / of_nat (length history)"

section \<open>Concrete inputs\<close>

text \<open>
  The arithmetic of IEEE 754 binary64, rounding to the nearest value and a tie to the
  even one. For a positive \<open>a\<close>, \<open>binade a\<close> is the \<open>e\<close> with \<open>2 ^ e \<le> a < 2 ^ (e + 1)\<close>;
  the values around \<open>a\<close> are the multiples of \<open>2 ^ (e - 52)\<close>, and of \<open>2 ^ - 1074\<close>
  below the normal range; a result that rounds to \<open>2 ^ 1024\<close> or more is an infinity. A
  zero divisor is taken as the positive zero. \<open>ieee\<close> stands for \<open>fl\<close> in the runs
  below.
\<close>

definition pow2 :: "int \<Rightarrow> rat" where
  "pow2 e = (if 0 \<le> e then 2 ^ nat e else 1 / 2 ^ nat (- e))"

definition round_half_even :: "rat \<Rightarrow> int" where
  "round_half_even x =
     (let n = \<lfloor>x\<rfloor>; d = x - of_int n
      in if d < 1 / 2 then n else if 1 / 2 < d then n + 1 else if even n then n else n + 1)"

definition binade :: "rat \<Rightarrow> int" where
  "binade a =
     (let d = bitlen (fst (quotient_of a)) - bitlen (snd (quotient_of a))
      in if pow2 d \<le> a then d else d - 1)"

definition round64 :: "rat \<Rightarrow> float64" where
  "round64 x =
     (if x = 0 then Finite 0
      else if 1023 < binade \<bar>x\<bar> then (if 0 < x then PosInf else NegInf)
      else
        (let quantum = pow2 (max (binade \<bar>x\<bar>) (- 1022) - 52);
             n = round_half_even (\<bar>x\<bar> / quantum)
         in if binade \<bar>x\<bar> = 1023 \<and> 2 ^ 53 \<le> n then (if 0 < x then PosInf else NegInf)
            else Finite (if 0 < x then of_int n * quantum else - (of_int n * quantum))))"

fun ieee_add :: "float64 \<Rightarrow> float64 \<Rightarrow> float64" where
  "ieee_add NaN y = NaN"
| "ieee_add x NaN = NaN"
| "ieee_add PosInf NegInf = NaN"
| "ieee_add NegInf PosInf = NaN"
| "ieee_add PosInf y = PosInf"
| "ieee_add x PosInf = PosInf"
| "ieee_add NegInf y = NegInf"
| "ieee_add x NegInf = NegInf"
| "ieee_add (Finite a) (Finite b) = round64 (a + b)"

fun ieee_div :: "float64 \<Rightarrow> float64 \<Rightarrow> float64" where
  "ieee_div NaN y = NaN"
| "ieee_div x NaN = NaN"
| "ieee_div (Finite a) (Finite b) =
     (if b = 0 then (if 0 < a then PosInf else if a < 0 then NegInf else NaN)
      else round64 (a / b))"
| "ieee_div (Finite a) y = Finite 0"
| "ieee_div x (Finite b) =
     (if x = PosInf then (if 0 \<le> b then PosInf else NegInf)
      else (if 0 \<le> b then NegInf else PosInf))"
| "ieee_div x y = NaN"

definition ieee :: float_ops where
  "ieee = \<lparr>f_add = ieee_add, f_div = ieee_div, f_of_int = (\<lambda>n. round64 (of_int n))\<rparr>"

text \<open>
  Upper-casing of the letters a to z, which is what \<open>strings.ToUpper\<close> does to a string
  of ASCII characters. It stands for \<open>ToUpper\<close> on the ASCII inputs below.
\<close>

definition ToUpperASCII :: "string \<Rightarrow> string" where
  "ToUpperASCII str =
     map (\<lambda>c. case map_of (zip ''abcdefghijklmnopqrstuvwxyz'' ''ABCDEFGHIJKLMNOPQRSTUVWXYZ'') c of
                None \<Rightarrow> c
              | Some u \<Rightarrow> u) str"

text \<open>The zero \<open>time.Time\<close> is 1 January of the year 1, 00:00 UTC.\<close>

definition zeroTime :: time where
  "zeroTime = - 62135596800000000000"

text \<open>\<open>baseReq\<close> of the engine's tests and \<open>newTx\<close> of the store's tests.\<close>

definition baseReq :: "string \<Rightarrow> TransactionRequest" where
  "baseReq ident =
     \<lparr>TransactionID = ident, Timestamp = 1772028000000000000, Amount = Finite 50,
      Currency = ''BRL'', UserEmail = ''user@example.com'', IPAddress = ''177.10.20.30'',
      IPCountry = ''BR'', CardBIN = ''453211'', CardCountry = ''BR'',
      DeviceFingerprint = ''device-abc'', AccountCreatedAt = 1735689600000000000,
      MerchantCountry = ''BR''\<rparr>"

definition newTx :: "string \<Rightarrow> string \<Rightarrow> string \<Rightarrow> string \<Rightarrow> string \<Rightarrow> time \<Rightarrow> Transaction" where
  "newTx ident email ip device bin ts =
     \<lparr>TransactionID = ident, Timestamp = ts, Amount = Finite 50, Currency = ''BRL'',
      UserEmail = email, IPAddress = ip, IPCountry = [], CardBIN = bin, CardCountry = [],
      DeviceFingerprint = device, AccountCreatedAt = zeroTime, MerchantCountry = [],
      RiskScore = 0, RiskLevel = [], Recommendation = [], Factors = [],
      Explanation = Lit [], ProcessedAt = zeroTime\<rparr>"

text \<open>No clock reading matters and no key is visited while the blocklist is empty.\<close>

definition no_entries :: "nat \<Rightarrow> time \<times> string list" where
  "no_entries i = (0, [])"

text \<open>The request of the engine's test of an obvious fraud.\<close>

definition fraudReq :: TransactionRequest where
  "fraudReq =
     (baseReq ''fraud-int-001'')
       \<lparr>IPCountry := ''RU'', CardCountry := ''US'', MerchantCountry := ''BR'',
        CardBIN := ''400000'',
        AccountCreatedAt := time_Add (Timestamp (baseReq ''fraud-int-001'')) (- 15 * Minute),
        Timestamp := 1771990200000000000\<rparr>"

text \<open>
  A request for which every rule but the purchase-behaviour rule is silent: account a
  year old, Brazilian card, address and merchant, an ordinary card BIN, 14:00 UTC, and an
  amount of 30.
\<close>

definition smallReq :: TransactionRequest where
  "smallReq = (baseReq ''behav-first-001'')\<lparr>Amount := Finite 30\<rparr>"

text \<open>
  A store whose only record of that request's e-mail address is stamped one hour after
  the request.
\<close>

definition laterStore :: Store where
  "laterStore =
     run [OpSaveTransaction
            (newTx ''later-001'' ''user@example.com'' ''1.1.1.1'' ''d1'' ''111111''
               (time_Add (Timestamp smallReq) Hour))] New"

text \<open>A request with no origin country and a card issued in the United States.\<close>

definition noOriginReq :: TransactionRequest where
  "noOriginReq = (baseReq ''geo-001'')\<lparr>IPCountry := [], CardCountry := ''US''\<rparr>"

text \<open>
  A store whose only record of the base request's e-mail address has amount 0, stamped
  one minute before the request, and a request of a very large amount.
\<close>

definition freeStore :: Store where
  "freeStore =
     run [OpSaveTransaction
            ((newTx ''free-001'' ''user@example.com'' ''1.1.1.1'' ''d1'' ''111111''
                (time_Add (Timestamp (baseReq ''big-001'')) (- 1 * Minute)))\<lparr>Amount := Finite 0\<rparr>)] New"

definition bigReq :: TransactionRequest where
  "bigReq = (baseReq ''big-001'')\<lparr>Amount := Finite 1000000\<rparr>"

text \<open>
  A store with four records of the base request's e-mail address, stamped four, three,
  two and one minute before the request and saved in this order, with the amounts
  \<open>- 10 ^ 16\<close>, \<open>- 1\<close>, \<open>10 ^ 16\<close> and \<open>1\<close>.
\<close>

definition cancelStore :: Store where
  "cancelStore =
     run [OpSaveTransaction
            ((newTx ''cancel-001'' ''user@example.com'' ''1.1.1.1'' ''d1'' ''111111''
                (time_Add (Timestamp (baseReq ''big-001'')) (- 4 * Minute)))
               \<lparr>Amount := Finite (- 10000000000000000)\<rparr>),
          OpSaveTransaction
            ((newTx ''cancel-002'' ''user@example.com'' ''1.1.1.1'' ''d1'' ''111111''
                (time_Add (Timestamp (baseReq ''big-001'')) (- 3 * Minute)))
               \<lparr>Amount := Finite (- 1)\<rparr>),
          OpSaveTransaction
            ((newTx ''cancel-003'' ''user@example.com'' ''1.1.1.1'' ''d1'' ''111111''
                (time_Add (Timestamp (baseReq ''big-001'')) (- 2 * Minute)))
               \<lparr>Amount := Finite 10000000000000000\<rparr>),
          OpSaveTransaction
            ((newTx ''cancel-004'' ''user@example.com'' ''1.1.1.1'' ''d1'' ''111111''
                (time_Add (Timestamp (baseReq ''big-001'')) (- 1 * Minute)))
               \<lparr>Amount := Finite 1\<rparr>)] New"

text \<open>
  Blocklist entries: a permanent block on an e-mail address, the same block expired at
  time 50, a permanent allow on the base request's IP address, and a block on an IP
  address that expires at time 100.
\<close>

definition blockEntry :: BlocklistEntry where
  "blockEntry =
     \<lparr>ID = ''bl-1'', Type = EntityEmail, Value = ''bad@fraud.com'', ListType = ListBlock,
      Reason = ''test'', CreatedAt = zeroTime, ExpiresAt = None\<rparr>"

definition expiredEntry :: BlocklistEntry where
  "expiredEntry = blockEntry\<lparr>ID := ''bl-exp-1'', ExpiresAt := Some 50\<rparr>"

definition allowEntry :: BlocklistEntry where
  "allowEntry =
     \<lparr>ID = ''al-1'', Type = EntityIP, Value = ''177.10.20.30'', ListType = ListAllow,
      Reason = ''VIP account'', CreatedAt = zeroTime, ExpiresAt = None\<rparr>"

definition edgeEntry :: BlocklistEntry where
  "edgeEntry =
     \<lparr>ID = ''bl-edge'', Type = EntityIP, Value = ''1.2.3.4'', ListType = ListBlock,
      Reason = ''edge'', CreatedAt = zeroTime, ExpiresAt = Some 100\<rparr>"

definition blockedReq :: TransactionRequest where
  "blockedReq = (baseReq ''bl-email-001'')\<lparr>UserEmail := ''bad@fraud.com''\<rparr>"

definition listed :: "BlocklistEntry list \<Rightarrow> Store" where
  "listed entries = run (map OpSaveBlocklistEntry entries) New"

text \<open>Every lookup reads the clock at \<open>now\<close> and visits the keys in the order \<open>ks\<close>.\<close>

definition always :: "time \<Rightarrow> string list \<Rightarrow> nat \<Rightarrow> time \<times> string list" where
  "always now ks i = (now, ks)"

text \<open>
  The store of the store's test of the time window: two records of one e-mail address,
  the first stamped 1000 and the second stamped 10.
\<close>

definition windowStore :: Store where
  "windowStore =
     run [OpSaveTransaction (newTx ''e-in-1'' ''user@x.com'' ''1.1.1.1'' ''d1'' ''111'' 1000),
          OpSaveTransaction (newTx ''e-out-1'' ''user@x.com'' ''1.1.1.1'' ''d1'' ''111'' 10)] New"

text \<open>The first record of the store's test of a duplicate identifier, and a second one
  under the same identifier.\<close>

definition dupFirst :: Transaction where
  "dupFirst = newTx ''dup-001'' ''a@a.com'' ''1.1.1.1'' ''dev1'' ''111111'' 1000"

definition dupSecond :: Transaction where
  "dupSecond = newTx ''dup-001'' ''b@b.com'' ''2.2.2.2'' ''dev2'' ''222222'' 2000"

section \<open>Reading leaves the store as it is\<close>

lemma snd_filterByTime: "snd (filterByTime ids since s) = s"
  by (simp add: filterByTime_def)

lemma snd_GetTransactionsByEmail: "snd (GetTransactionsByEmail v since s) = s"
  by (simp add: GetTransactionsByEmail_def snd_filterByTime)

lemma snd_GetTransactionsByIP: "snd (GetTransactionsByIP v since s) = s"
  by (simp add: GetTransactionsByIP_def snd_filterByTime)

lemma snd_GetTransactionsByDevice: "snd (GetTransactionsByDevice v since s) = s"
  by (simp add: GetTransactionsByDevice_def snd_filterByTime)

lemma snd_GetTransactionsByBIN: "snd (GetTransactionsByBIN v since s) = s"
  by (simp add: GetTransactionsByBIN_def snd_filterByTime)

lemma snd_GetUniqueCardsByIP: "snd (GetUniqueCardsByIP ip s) = s"
  by (simp add: GetUniqueCardsByIP_def)

lemma snd_CheckBlocklist: "snd (CheckBlocklist now ks entityType v s) = s"
  by (simp add: CheckBlocklist_def)

lemmas store_reads_frame =
  snd_GetTransactionsByEmail snd_GetTransactionsByIP snd_GetTransactionsByDevice
  snd_GetTransactionsByBIN snd_GetUniqueCardsByIP snd_CheckBlocklist

lemma buildContext_eq:
  "buildContext rq s =
     (\<lparr>req = rq,
       emailLast24h = fst (GetTransactionsByEmail (UserEmail rq) (time_Add (Timestamp rq) (- 24 * Hour)) s),
       emailLast10m = fst (GetTransactionsByEmail (UserEmail rq) (time_Add (Timestamp rq) (- 10 * Minute)) s),
       ipLast1h = fst (GetTransactionsByIP (IPAddress rq) (time_Add (Timestamp rq) (- 1 * Hour)) s),
       deviceLast30m = fst (GetTransactionsByDevice (DeviceFingerprint rq) (time_Add (Timestamp rq) (- 30 * Minute)) s),
       binLast1h = fst (GetTransactionsByBIN (CardBIN rq) (time_Add (Timestamp rq) (- 1 * Hour)) s),
       uniqueCardsByIP = fst (GetUniqueCardsByIP (IPAddress rq) s)\<rparr>, s)"
  using store_reads_frame
  by (simp add: buildContext_def Let_def split_beta)

lemma snd_buildContext: "snd (buildContext rq s) = s"
  by (simp add: buildContext_eq)

lemma snd_checkLists_loop: "snd (checkLists_loop envs i cs s) = s"
proof (induction cs arbitrary: i)
  case Nil
  show ?case by simp
next
  case (Cons c cs)
  obtain ty v where c: "c = (ty, v)" by (cases c)
  have "snd (CheckBlocklist (fst (envs i)) (snd (envs i)) ty v s) = s"
    by (rule snd_CheckBlocklist)
  then show ?case
    using Cons.IH [of "Suc i"] c
    by (cases "CheckBlocklist (fst (envs i)) (snd (envs i)) ty v s") (auto split: option.splits)
qed

lemma snd_checkLists: "snd (checkLists envs rq s) = s"
  unfolding checkLists_def by (rule snd_checkLists_loop)

lemma snd_Score_rules: "snd (Score_rules ToUpper fl rq s) = s"
  using snd_buildContext [of rq s]
  by (simp add: Score_rules_def Let_def split_beta)

text \<open>
  C5. Scoring never changes the store: for every request, every store, every clock
  reading and every iteration order, the store that \<open>Score\<close> leaves is the store it was
  given. Nothing of the result is written to it.
\<close>

theorem Score_leaves_store_unchanged: "snd (Score ToUpper fl envs rq s) = s"
proof (cases "checkLists envs rq s")
  case (Pair hit s1)
  have s1: "s1 = s"
    using snd_checkLists [of envs rq s] Pair by simp
  show ?thesis
    using Pair s1 by (simp add: Score_def Let_def snd_Score_rules split: option.splits)
qed

section \<open>The range of the score\<close>

lemma ruleVelocityEmail_nonneg: "f \<in> set (ruleVelocityEmail ctx) \<Longrightarrow> 0 \<le> ScoreDelta f"
  by (auto simp: ruleVelocityEmail_def Let_def clamp_def split: if_splits)

lemma ruleVelocityIP_nonneg: "f \<in> set (ruleVelocityIP ctx) \<Longrightarrow> 0 \<le> ScoreDelta f"
  by (auto simp: ruleVelocityIP_def Let_def clamp_def split: if_splits)

lemma ruleVelocityDevice_nonneg: "f \<in> set (ruleVelocityDevice ctx) \<Longrightarrow> 0 \<le> ScoreDelta f"
  by (auto simp: ruleVelocityDevice_def Let_def clamp_def split: if_splits)

lemma ruleVelocityCardCycling_nonneg: "f \<in> set (ruleVelocityCardCycling ctx) \<Longrightarrow> 0 \<le> ScoreDelta f"
  by (auto simp: ruleVelocityCardCycling_def Let_def clamp_def split: if_splits)

lemma ruleGeography_nonneg: "f \<in> set (ruleGeography ToUpper ctx) \<Longrightarrow> 0 \<le> ScoreDelta f"
  by (auto simp: ruleGeography_def Let_def split: if_splits)

lemma ruleAccountAge_nonneg: "f \<in> set (ruleAccountAge fl ctx) \<Longrightarrow> 0 \<le> ScoreDelta f"
  by (auto simp: ruleAccountAge_def Let_def split: if_splits)

lemma rulePurchaseBehaviour_nonneg: "f \<in> set (rulePurchaseBehaviour fl ctx) \<Longrightarrow> 0 \<le> ScoreDelta f"
  by (auto simp: rulePurchaseBehaviour_def Let_def split: if_splits)

lemma ruleCardBIN_nonneg: "f \<in> set (ruleCardBIN ctx) \<Longrightarrow> 0 \<le> ScoreDelta f"
  by (auto simp: ruleCardBIN_def Let_def split: if_splits)

lemma ruleTiming_nonneg: "f \<in> set (ruleTiming ctx) \<Longrightarrow> 0 \<le> ScoreDelta f"
  by (auto simp: ruleTiming_def Let_def split: if_splits)

lemma all_rules_nonneg:
  "f \<in> set (concat (map (\<lambda>rule. rule ctx) (rules ToUpper fl))) \<Longrightarrow> 0 \<le> ScoreDelta f"
  using ruleVelocityEmail_nonneg [of f ctx] ruleVelocityIP_nonneg [of f ctx]
    ruleVelocityDevice_nonneg [of f ctx] ruleVelocityCardCycling_nonneg [of f ctx]
    ruleGeography_nonneg [of f ToUpper ctx] ruleAccountAge_nonneg [of f fl ctx]
    rulePurchaseBehaviour_nonneg [of f fl ctx] ruleCardBIN_nonneg [of f ctx]
    ruleTiming_nonneg [of f ctx]
  by (auto simp: rules_def)

lemma Score_rules_eq:
  "fst (Score_rules ToUpper fl rq s) =
     (let factors = concat (map (\<lambda>rule. rule (fst (buildContext rq s))) (rules ToUpper fl));
          total = clamp (sum_list (map ScoreDelta factors)) 0 100
      in (total, factors, buildExplanation total factors))"
  by (simp add: Score_rules_def Let_def split_beta clamp_def)

lemma Score_rules_range:
  "0 \<le> result_score (Score_rules ToUpper fl rq s) \<and> result_score (Score_rules ToUpper fl rq s) \<le> 100
   \<and> (\<forall>f \<in> set (result_factors (Score_rules ToUpper fl rq s)). 0 \<le> ScoreDelta f)"
  using all_rules_nonneg [of _ "fst (buildContext rq s)" ToUpper fl]
  by (simp add: result_score_def result_factors_def Score_rules_eq Let_def clamp_def)

text \<open>
  C1. For every request and every store, the score that \<open>Score\<close> returns lies between 0
  and 100, and every factor it returns has a delta that is not negative. This holds also
  where the sum of the deltas is above 100: the request of an obvious fraud has deltas
  that add up to 130 and the score 100.
\<close>

theorem Score_range:
  "0 \<le> result_score (Score ToUpper fl envs rq s) \<and> result_score (Score ToUpper fl envs rq s) \<le> 100
   \<and> (\<forall>f \<in> set (result_factors (Score ToUpper fl envs rq s)). 0 \<le> ScoreDelta f)"
proof (cases "checkLists envs rq s")
  case (Pair hit s1)
  show ?thesis
  proof (cases hit)
    case None
    then show ?thesis
      using Pair Score_rules_range [of ToUpper fl rq s1] by (simp add: Score_def)
  next
    case (Some entry)
    consider "ListType entry = ListBlock"
      | "ListType entry \<noteq> ListBlock" "ListType entry = ListAllow"
      | "ListType entry \<noteq> ListBlock" "ListType entry \<noteq> ListAllow"
      by blast
    then show ?thesis
    proof cases
      case 1
      then show ?thesis
        using Pair Some by (simp add: Score_def Let_def result_score_def result_factors_def)
    next
      case 2
      then show ?thesis
        using Pair Some by (simp add: Score_def Let_def result_score_def result_factors_def)
    next
      case 3
      then show ?thesis
        using Pair Some Score_rules_range [of ToUpper fl rq s1] by (simp add: Score_def)
    qed
  qed
qed

theorem Score_range_witness:
  "result_score (Score ToUpperASCII ieee no_entries fraudReq New) = 100
   \<and> sum_list (map ScoreDelta (result_factors (Score ToUpperASCII ieee no_entries fraudReq New))) = 130
   \<and> length (result_factors (Score ToUpperASCII ieee no_entries fraudReq New)) = 8
   \<and> 0 \<le> ScoreDelta (hd (result_factors (Score ToUpperASCII ieee no_entries fraudReq New)))"
proof -
  have run: "result_score (Score ToUpperASCII ieee no_entries fraudReq New) = 100
    \<and> sum_list (map ScoreDelta (result_factors (Score ToUpperASCII ieee no_entries fraudReq New))) = 130
    \<and> length (result_factors (Score ToUpperASCII ieee no_entries fraudReq New)) = 8"
    by code_simp
  then have "result_factors (Score ToUpperASCII ieee no_entries fraudReq New) \<noteq> []"
    by auto
  then have "hd (result_factors (Score ToUpperASCII ieee no_entries fraudReq New))
      \<in> set (result_factors (Score ToUpperASCII ieee no_entries fraudReq New))"
    by simp
  then have "0 \<le> ScoreDelta (hd (result_factors (Score ToUpperASCII ieee no_entries fraudReq New)))"
    using Score_range [of ToUpperASCII ieee no_entries fraudReq New] by blast
  then show ?thesis
    using run by simp
qed

section \<open>Saving and the indexes\<close>

lemma SaveTransaction_fresh:
  assumes "transactions s (TransactionID tx) = None"
  shows "fst (SaveTransaction tx s) = None"
    and "transactions (snd (SaveTransaction tx s)) = (transactions s)(TransactionID tx \<mapsto> tx)"
    and "ids_at (txByEmail (snd (SaveTransaction tx s))) v =
           (if v = UserEmail tx then ids_at (txByEmail s) v @ [TransactionID tx]
            else ids_at (txByEmail s) v)"
    and "ids_at (txByIP (snd (SaveTransaction tx s))) v =
           (if v = IPAddress tx then ids_at (txByIP s) v @ [TransactionID tx]
            else ids_at (txByIP s) v)"
    and "ids_at (txByDevice (snd (SaveTransaction tx s))) v =
           (if v = DeviceFingerprint tx then ids_at (txByDevice s) v @ [TransactionID tx]
            else ids_at (txByDevice s) v)"
    and "ids_at (txByBIN (snd (SaveTransaction tx s))) v =
           (if v = CardBIN tx then ids_at (txByBIN s) v @ [TransactionID tx]
            else ids_at (txByBIN s) v)"
    and "cards_at (cardsByIP (snd (SaveTransaction tx s))) v =
           (if v = IPAddress tx then insert (CardBIN tx) (cards_at (cardsByIP s) v)
            else cards_at (cardsByIP s) v)"
  using assms by (simp_all add: SaveTransaction_def ids_at_def cards_at_def)

lemma SaveTransaction_duplicate:
  assumes "transactions s (TransactionID tx) \<noteq> None"
  shows "SaveTransaction tx s = (Some ErrDuplicateTransaction, s)"
  using assms by (simp add: SaveTransaction_def)

lemma index_exact_New: "index_exact New"
  by (simp add: index_exact_def New_def ids_at_def)

lemma index_exact_SaveTransaction:
  assumes inv: "index_exact s"
  shows "index_exact (snd (SaveTransaction tx s))"
proof (cases "transactions s (TransactionID tx) = None")
  case False
  then show ?thesis
    using inv by (simp add: SaveTransaction_duplicate)
next
  case True
  note fresh = SaveTransaction_fresh(2-7) [OF True]
  have stored: "\<And>k t. transactions s k = Some t \<Longrightarrow>
      TransactionID t = k
      \<and> k \<in> set (ids_at (txByEmail s) (UserEmail t))
      \<and> k \<in> set (ids_at (txByIP s) (IPAddress t))
      \<and> k \<in> set (ids_at (txByDevice s) (DeviceFingerprint t))
      \<and> k \<in> set (ids_at (txByBIN s) (CardBIN t))
      \<and> CardBIN t \<in> cards_at (cardsByIP s) (IPAddress t)"
    using inv unfolding index_exact_def by blast
  have em: "\<And>v k. k \<in> set (ids_at (txByEmail s) v) \<Longrightarrow>
      \<exists>t. transactions s k = Some t \<and> UserEmail t = v"
    using inv unfolding index_exact_def by blast
  have ip: "\<And>v k. k \<in> set (ids_at (txByIP s) v) \<Longrightarrow>
      \<exists>t. transactions s k = Some t \<and> IPAddress t = v"
    using inv unfolding index_exact_def by blast
  have dv: "\<And>v k. k \<in> set (ids_at (txByDevice s) v) \<Longrightarrow>
      \<exists>t. transactions s k = Some t \<and> DeviceFingerprint t = v"
    using inv unfolding index_exact_def by blast
  have bn: "\<And>v k. k \<in> set (ids_at (txByBIN s) v) \<Longrightarrow>
      \<exists>t. transactions s k = Some t \<and> CardBIN t = v"
    using inv unfolding index_exact_def by blast
  have 1: "\<forall>k t. transactions (snd (SaveTransaction tx s)) k = Some t \<longrightarrow>
      TransactionID t = k
      \<and> k \<in> set (ids_at (txByEmail (snd (SaveTransaction tx s))) (UserEmail t))
      \<and> k \<in> set (ids_at (txByIP (snd (SaveTransaction tx s))) (IPAddress t))
      \<and> k \<in> set (ids_at (txByDevice (snd (SaveTransaction tx s))) (DeviceFingerprint t))
      \<and> k \<in> set (ids_at (txByBIN (snd (SaveTransaction tx s))) (CardBIN t))
      \<and> CardBIN t \<in> cards_at (cardsByIP (snd (SaveTransaction tx s))) (IPAddress t)"
  proof (intro allI impI)
    fix k t
    assume kt: "transactions (snd (SaveTransaction tx s)) k = Some t"
    show "TransactionID t = k
      \<and> k \<in> set (ids_at (txByEmail (snd (SaveTransaction tx s))) (UserEmail t))
      \<and> k \<in> set (ids_at (txByIP (snd (SaveTransaction tx s))) (IPAddress t))
      \<and> k \<in> set (ids_at (txByDevice (snd (SaveTransaction tx s))) (DeviceFingerprint t))
      \<and> k \<in> set (ids_at (txByBIN (snd (SaveTransaction tx s))) (CardBIN t))
      \<and> CardBIN t \<in> cards_at (cardsByIP (snd (SaveTransaction tx s))) (IPAddress t)"
    proof (cases "k = TransactionID tx")
      case True
      then have "t = tx"
        using kt by (simp add: fresh)
      then show ?thesis
        using True by (simp add: fresh)
    next
      case False
      then have "transactions s k = Some t"
        using kt by (simp add: fresh)
      from stored [OF this] show ?thesis
        by (auto simp: fresh)
    qed
  qed
  have 2: "\<forall>v k. k \<in> set (ids_at (txByEmail (snd (SaveTransaction tx s))) v) \<longrightarrow>
      (\<exists>t. transactions (snd (SaveTransaction tx s)) k = Some t \<and> UserEmail t = v)"
  proof (intro allI impI)
    fix v k
    assume k: "k \<in> set (ids_at (txByEmail (snd (SaveTransaction tx s))) v)"
    show "\<exists>t. transactions (snd (SaveTransaction tx s)) k = Some t \<and> UserEmail t = v"
    proof (cases "k = TransactionID tx")
      case True
      have "TransactionID tx \<notin> set (ids_at (txByEmail s) v)"
        using em [of "TransactionID tx" v] \<open>transactions s (TransactionID tx) = None\<close> by auto
      then have "v = UserEmail tx"
        using k True by (auto simp: fresh split: if_splits)
      then show ?thesis
        using True by (simp add: fresh)
    next
      case False
      then have "k \<in> set (ids_at (txByEmail s) v)"
        using k by (auto simp: fresh split: if_splits)
      from em [OF this] show ?thesis
        using False by (simp add: fresh)
    qed
  qed
  have 3: "\<forall>v k. k \<in> set (ids_at (txByIP (snd (SaveTransaction tx s))) v) \<longrightarrow>
      (\<exists>t. transactions (snd (SaveTransaction tx s)) k = Some t \<and> IPAddress t = v)"
  proof (intro allI impI)
    fix v k
    assume k: "k \<in> set (ids_at (txByIP (snd (SaveTransaction tx s))) v)"
    show "\<exists>t. transactions (snd (SaveTransaction tx s)) k = Some t \<and> IPAddress t = v"
    proof (cases "k = TransactionID tx")
      case True
      have "TransactionID tx \<notin> set (ids_at (txByIP s) v)"
        using ip [of "TransactionID tx" v] \<open>transactions s (TransactionID tx) = None\<close> by auto
      then have "v = IPAddress tx"
        using k True by (auto simp: fresh split: if_splits)
      then show ?thesis
        using True by (simp add: fresh)
    next
      case False
      then have "k \<in> set (ids_at (txByIP s) v)"
        using k by (auto simp: fresh split: if_splits)
      from ip [OF this] show ?thesis
        using False by (simp add: fresh)
    qed
  qed
  have 4: "\<forall>v k. k \<in> set (ids_at (txByDevice (snd (SaveTransaction tx s))) v) \<longrightarrow>
      (\<exists>t. transactions (snd (SaveTransaction tx s)) k = Some t \<and> DeviceFingerprint t = v)"
  proof (intro allI impI)
    fix v k
    assume k: "k \<in> set (ids_at (txByDevice (snd (SaveTransaction tx s))) v)"
    show "\<exists>t. transactions (snd (SaveTransaction tx s)) k = Some t \<and> DeviceFingerprint t = v"
    proof (cases "k = TransactionID tx")
      case True
      have "TransactionID tx \<notin> set (ids_at (txByDevice s) v)"
        using dv [of "TransactionID tx" v] \<open>transactions s (TransactionID tx) = None\<close> by auto
      then have "v = DeviceFingerprint tx"
        using k True by (auto simp: fresh split: if_splits)
      then show ?thesis
        using True by (simp add: fresh)
    next
      case False
      then have "k \<in> set (ids_at (txByDevice s) v)"
        using k by (auto simp: fresh split: if_splits)
      from dv [OF this] show ?thesis
        using False by (simp add: fresh)
    qed
  qed
  have 5: "\<forall>v k. k \<in> set (ids_at (txByBIN (snd (SaveTransaction tx s))) v) \<longrightarrow>
      (\<exists>t. transactions (snd (SaveTransaction tx s)) k = Some t \<and> CardBIN t = v)"
  proof (intro allI impI)
    fix v k
    assume k: "k \<in> set (ids_at (txByBIN (snd (SaveTransaction tx s))) v)"
    show "\<exists>t. transactions (snd (SaveTransaction tx s)) k = Some t \<and> CardBIN t = v"
    proof (cases "k = TransactionID tx")
      case True
      have "TransactionID tx \<notin> set (ids_at (txByBIN s) v)"
        using bn [of "TransactionID tx" v] \<open>transactions s (TransactionID tx) = None\<close> by auto
      then have "v = CardBIN tx"
        using k True by (auto simp: fresh split: if_splits)
      then show ?thesis
        using True by (simp add: fresh)
    next
      case False
      then have "k \<in> set (ids_at (txByBIN s) v)"
        using k by (auto simp: fresh split: if_splits)
      from bn [OF this] show ?thesis
        using False by (simp add: fresh)
    qed
  qed
  show ?thesis
    unfolding index_exact_def using 1 2 3 4 5 by blast
qed

lemma index_exact_apply_op:
  assumes "index_exact s"
  shows "index_exact (apply_op op s)"
proof (cases op)
  case (OpSaveTransaction tx)
  then show ?thesis
    using assms by (simp add: index_exact_SaveTransaction)
next
  case (OpSaveBlocklistEntry entry)
  then show ?thesis
    using assms by (simp add: SaveBlocklistEntry_def index_exact_def)
next
  case (OpDeleteBlocklistEntry ident)
  then show ?thesis
    using assms by (simp add: DeleteBlocklistEntry_def index_exact_def)
next
  case (OpSaveWebhook wh)
  then show ?thesis
    using assms by (simp add: SaveWebhook_def index_exact_def)
next
  case (OpDeleteWebhook ident)
  then show ?thesis
    using assms by (simp add: DeleteWebhook_def index_exact_def)
qed (use assms in \<open>simp_all add: store_reads_frame GetTransaction_def GetAllTransactions_def
      ListBlocklistEntries_def ListActiveWebhooks_def\<close>)

lemma index_exact_run: "index_exact s \<Longrightarrow> index_exact (run ops s)"
  by (induction ops arbitrary: s) (simp_all add: index_exact_apply_op)

lemma index_exact_consistent: "index_exact s \<Longrightarrow> index_consistent s"
  unfolding index_exact_def index_consistent_def by blast

text \<open>
  C4. After any sequence of calls of the store's methods on a new store, every stored
  record is under its own identifier, the identifier is in the index of e-mail addresses
  at the record's address, in the index of IP addresses at the record's IP address, in the
  index of devices at its fingerprint and in the index of card BINs at its BIN, and its
  card BIN is in the set of BINs of its IP address; and every identifier found in an
  index has a record in the primary table.
\<close>

theorem indexes_consistent_after_operations: "index_consistent (run ops New)"
  by (rule index_exact_consistent) (rule index_exact_run [OF index_exact_New])

theorem indexes_consistent_after_operations_witness:
  "transactions windowStore ''e-in-1'' \<noteq> None
   \<and> ''e-in-1'' \<in> set (ids_at (txByEmail windowStore) ''user@x.com'')
   \<and> ''e-in-1'' \<in> set (ids_at (txByIP windowStore) ''1.1.1.1'')
   \<and> ''e-in-1'' \<in> set (ids_at (txByDevice windowStore) ''d1'')
   \<and> ''e-in-1'' \<in> set (ids_at (txByBIN windowStore) ''111'')
   \<and> ''111'' \<in> cards_at (cardsByIP windowStore) ''1.1.1.1''
   \<and> transactions windowStore ''e-out-1'' \<noteq> None"
proof -
  let ?tx = "newTx ''e-in-1'' ''user@x.com'' ''1.1.1.1'' ''d1'' ''111'' 1000"
  have stored: "transactions windowStore ''e-in-1'' = Some ?tx"
    by (simp add: windowStore_def SaveTransaction_def New_def newTx_def)
  have fields: "UserEmail ?tx = ''user@x.com''" "IPAddress ?tx = ''1.1.1.1''"
      "DeviceFingerprint ?tx = ''d1''" "CardBIN ?tx = ''111''"
    by (simp_all add: newTx_def)
  have indexed: "''e-out-1'' \<in> set (ids_at (txByEmail windowStore) ''user@x.com'')"
    by (simp add: windowStore_def SaveTransaction_def New_def newTx_def ids_at_def)
  have ic: "index_consistent windowStore"
    unfolding windowStore_def by (rule indexes_consistent_after_operations)
  have forward: "\<forall>k tx. transactions windowStore k = Some tx \<longrightarrow>
          TransactionID tx = k
          \<and> k \<in> set (ids_at (txByEmail windowStore) (UserEmail tx))
          \<and> k \<in> set (ids_at (txByIP windowStore) (IPAddress tx))
          \<and> k \<in> set (ids_at (txByDevice windowStore) (DeviceFingerprint tx))
          \<and> k \<in> set (ids_at (txByBIN windowStore) (CardBIN tx))
          \<and> CardBIN tx \<in> cards_at (cardsByIP windowStore) (IPAddress tx)"
    using ic unfolding index_consistent_def by (rule conjunct1)
  have backward: "\<forall>v k. k \<in> set (ids_at (txByEmail windowStore) v) \<longrightarrow>
          transactions windowStore k \<noteq> None"
    using ic unfolding index_consistent_def by (elim conjE)
  have 1: "''e-in-1'' \<in> set (ids_at (txByEmail windowStore) (UserEmail ?tx))
          \<and> ''e-in-1'' \<in> set (ids_at (txByIP windowStore) (IPAddress ?tx))
          \<and> ''e-in-1'' \<in> set (ids_at (txByDevice windowStore) (DeviceFingerprint ?tx))
          \<and> ''e-in-1'' \<in> set (ids_at (txByBIN windowStore) (CardBIN ?tx))
          \<and> CardBIN ?tx \<in> cards_at (cardsByIP windowStore) (IPAddress ?tx)"
    using forward [rule_format, OF stored] by (elim conjE) (intro conjI)
  have 2: "transactions windowStore ''e-out-1'' \<noteq> None"
    using backward [rule_format, OF indexed] .
  show ?thesis
    using 1 2 stored unfolding fields by simp
qed

text \<open>
  C3. A save under an identifier that the store already holds fails with the
  duplicate-identifier error and leaves the whole store as it was: the primary table, the
  four indexes and the sets of card BINs. In particular, after a first save has
  succeeded, a second save under the same identifier fails, changes nothing, and the
  record of the first save is still the one stored.
\<close>

theorem duplicate_save_rejected:
  "(transactions s (TransactionID tx) \<noteq> None \<longrightarrow>
      SaveTransaction tx s = (Some ErrDuplicateTransaction, s))
   \<and> (fst (SaveTransaction tx1 s) = None \<and> TransactionID tx2 = TransactionID tx1 \<longrightarrow>
        SaveTransaction tx2 (snd (SaveTransaction tx1 s))
          = (Some ErrDuplicateTransaction, snd (SaveTransaction tx1 s))
        \<and> transactions (snd (SaveTransaction tx2 (snd (SaveTransaction tx1 s)))) (TransactionID tx1)
          = Some tx1)"
proof (intro conjI impI)
  assume "transactions s (TransactionID tx) \<noteq> None"
  then show "SaveTransaction tx s = (Some ErrDuplicateTransaction, s)"
    by (rule SaveTransaction_duplicate)
next
  assume a: "fst (SaveTransaction tx1 s) = None \<and> TransactionID tx2 = TransactionID tx1"
  then have fresh: "transactions s (TransactionID tx1) = None"
    by (auto simp: SaveTransaction_def split: if_splits)
  have stored: "transactions (snd (SaveTransaction tx1 s)) (TransactionID tx1) = Some tx1"
    by (simp add: SaveTransaction_fresh(2) [OF fresh])
  then have "transactions (snd (SaveTransaction tx1 s)) (TransactionID tx2) \<noteq> None"
    using a by simp
  then show dup: "SaveTransaction tx2 (snd (SaveTransaction tx1 s))
          = (Some ErrDuplicateTransaction, snd (SaveTransaction tx1 s))"
    by (rule SaveTransaction_duplicate)
  show "transactions (snd (SaveTransaction tx2 (snd (SaveTransaction tx1 s)))) (TransactionID tx1)
          = Some tx1"
    using dup stored by simp
qed

theorem duplicate_save_rejected_witness:
  "SaveTransaction dupFirst (snd (SaveTransaction dupFirst New))
     = (Some ErrDuplicateTransaction, snd (SaveTransaction dupFirst New))
   \<and> SaveTransaction dupSecond (snd (SaveTransaction dupFirst New))
     = (Some ErrDuplicateTransaction, snd (SaveTransaction dupFirst New))
   \<and> transactions (snd (SaveTransaction dupSecond (snd (SaveTransaction dupFirst New)))) ''dup-001''
     = Some dupFirst"
proof -
  have first: "fst (SaveTransaction dupFirst New) = None"
    by (simp add: SaveTransaction_def New_def)
  have ids: "TransactionID dupSecond = TransactionID dupFirst"
    by (simp add: dupFirst_def dupSecond_def newTx_def)
  have ident: "TransactionID dupFirst = ''dup-001''"
    by (simp add: dupFirst_def newTx_def)
  have held: "transactions (snd (SaveTransaction dupFirst New)) (TransactionID dupFirst) \<noteq> None"
    by (simp add: SaveTransaction_def New_def)
  note again = duplicate_save_rejected [where s = "snd (SaveTransaction dupFirst New)" and tx = dupFirst]
  note other = duplicate_save_rejected [where s = New and ?tx1.0 = dupFirst and ?tx2.0 = dupSecond]
  have a: "SaveTransaction dupFirst (snd (SaveTransaction dupFirst New))
     = (Some ErrDuplicateTransaction, snd (SaveTransaction dupFirst New))"
    using again held by blast
  have b: "SaveTransaction dupSecond (snd (SaveTransaction dupFirst New))
          = (Some ErrDuplicateTransaction, snd (SaveTransaction dupFirst New))
        \<and> transactions (snd (SaveTransaction dupSecond (snd (SaveTransaction dupFirst New)))) (TransactionID dupFirst)
          = Some dupFirst"
    using other first ids by blast
  show ?thesis
    using a b unfolding ident by blast
qed

section \<open>The override check\<close>

lemma CheckBlocklist_loop_find:
  "CheckBlocklist_loop now entityType v es = find (matches_unexpired now entityType v) es"
  by (induction es)
    (auto simp: matches_unexpired_def expiry_in_past_def time_Before_def split: option.splits)

lemma set_range_values: "set (range_values m ks) = {v. \<exists>k \<in> set ks. m k = Some v}"
  by (induction ks) (auto split: option.splits)

lemma range_values_drop_expired:
  "range_values (drop_expired now m) ks
     = filter (\<lambda>entry. \<not> expiry_in_past now entry) (range_values m ks)"
  by (induction ks) (auto simp: drop_expired_def split: option.splits)

lemma find_filter_weaker: "(\<And>x. P x \<Longrightarrow> Q x) \<Longrightarrow> find P (filter Q xs) = find P xs"
  by (induction xs) auto

lemma lookup_find:
  "lookup envs i entityType v s
     = find (matches_unexpired (fst (envs i)) entityType v)
         (range_values (blocklist s) (snd (envs i)))"
  by (simp add: lookup_def CheckBlocklist_def CheckBlocklist_loop_find)

lemma lookup_drop_expired:
  "lookup envs i entityType v (s\<lparr>blocklist := drop_expired (fst (envs i)) (blocklist s)\<rparr>)
     = lookup envs i entityType v s"
proof -
  have "find (matches_unexpired (fst (envs i)) entityType v)
          (filter (\<lambda>entry. \<not> expiry_in_past (fst (envs i)) entry)
             (range_values (blocklist s) (snd (envs i))))
        = find (matches_unexpired (fst (envs i)) entityType v)
            (range_values (blocklist s) (snd (envs i)))"
    by (rule find_filter_weaker) (simp add: matches_unexpired_def)
  then show ?thesis
    by (simp add: lookup_find range_values_drop_expired)
qed

lemma CheckBlocklist_lookup:
  "CheckBlocklist (fst (envs i)) (snd (envs i)) entityType v s = (lookup envs i entityType v s, s)"
  by (simp add: lookup_def CheckBlocklist_def)

lemma checkLists_priority:
  "fst (checkLists envs rq s) =
     (case lookup envs 0 EntityEmail (UserEmail rq) s of
        Some entry \<Rightarrow> Some entry
      | None \<Rightarrow>
         (case lookup envs 1 EntityIP (IPAddress rq) s of
            Some entry \<Rightarrow> Some entry
          | None \<Rightarrow>
             (case lookup envs 2 EntityBIN (CardBIN rq) s of
                Some entry \<Rightarrow> Some entry
              | None \<Rightarrow> lookup envs 3 EntityDevice (DeviceFingerprint rq) s)))"
  by (simp add: checkLists_def CheckBlocklist_lookup numeral_2_eq_2 numeral_3_eq_3
      split: option.splits)

lemma Score_block:
  assumes "fst (checkLists envs rq s) = Some entry" and "ListType entry = ListBlock"
  shows "result_score (Score ToUpper fl envs rq s) = 100
    \<and> map Name (result_factors (Score ToUpper fl envs rq s)) = [''blocklist_match'']
    \<and> map ScoreDelta (result_factors (Score ToUpper fl envs rq s)) = [100]"
  using assms
  by (cases "checkLists envs rq s")
    (simp add: Score_def Let_def result_score_def result_factors_def)

lemma Score_allow:
  assumes "fst (checkLists envs rq s) = Some entry" and "ListType entry = ListAllow"
  shows "result_score (Score ToUpper fl envs rq s) = 0
    \<and> map Name (result_factors (Score ToUpper fl envs rq s)) = [''allowlist_match'']
    \<and> map ScoreDelta (result_factors (Score ToUpper fl envs rq s)) = [0]"
  using assms
  by (cases "checkLists envs rq s")
    (simp add: Score_def Let_def result_score_def result_factors_def ListAllow_def ListBlock_def)

text \<open>
  C2. The override check looks up the e-mail address, the IP address, the card BIN and
  the device fingerprint, in this order, and the first lookup that finds an entry decides.
  A lookup finds the first entry, in the order of its iteration, that has the entity type
  and the value asked for and whose expiry does not lie in the past; an entry whose expiry
  lies in the past is ignored as if it were absent: without such entries the lookup finds
  the same. When the entry found is a block entry, the score is 100 and the only factor
  is \<open>blocklist_match\<close> with delta 100; when it is an allow entry, the score is 0 and
  the only factor is \<open>allowlist_match\<close> with delta 0. No rule contributes in either
  case.
\<close>

theorem override_check:
  "fst (checkLists envs rq s) =
     (case lookup envs 0 EntityEmail (UserEmail rq) s of
        Some entry \<Rightarrow> Some entry
      | None \<Rightarrow>
         (case lookup envs 1 EntityIP (IPAddress rq) s of
            Some entry \<Rightarrow> Some entry
          | None \<Rightarrow>
             (case lookup envs 2 EntityBIN (CardBIN rq) s of
                Some entry \<Rightarrow> Some entry
              | None \<Rightarrow> lookup envs 3 EntityDevice (DeviceFingerprint rq) s)))
   \<and> lookup envs i entityType v s
       = find (matches_unexpired (fst (envs i)) entityType v)
           (range_values (blocklist s) (snd (envs i)))
   \<and> lookup envs i entityType v (s\<lparr>blocklist := drop_expired (fst (envs i)) (blocklist s)\<rparr>)
       = lookup envs i entityType v s
   \<and> (fst (checkLists envs rq s) = Some hit \<and> ListType hit = ListBlock \<longrightarrow>
        result_score (Score ToUpper fl envs rq s) = 100
        \<and> map Name (result_factors (Score ToUpper fl envs rq s)) = [''blocklist_match'']
        \<and> map ScoreDelta (result_factors (Score ToUpper fl envs rq s)) = [100])
   \<and> (fst (checkLists envs rq s) = Some hit \<and> ListType hit = ListAllow \<longrightarrow>
        result_score (Score ToUpper fl envs rq s) = 0
        \<and> map Name (result_factors (Score ToUpper fl envs rq s)) = [''allowlist_match'']
        \<and> map ScoreDelta (result_factors (Score ToUpper fl envs rq s)) = [0])"
  using checkLists_priority [of envs rq s] lookup_find [of envs i entityType v s]
    lookup_drop_expired [of envs i entityType v s]
    Score_block [of envs rq s hit ToUpper fl] Score_allow [of envs rq s hit ToUpper fl]
  by blast

theorem override_check_witness:
  "result_score (Score ToUpperASCII ieee (always 100 [''al-1'', ''bl-1'']) blockedReq
      (listed [blockEntry, allowEntry])) = 100
   \<and> map Name (result_factors (Score ToUpperASCII ieee (always 100 [''al-1'', ''bl-1'']) blockedReq
      (listed [blockEntry, allowEntry]))) = [''blocklist_match'']
   \<and> result_score (Score ToUpperASCII ieee (always 100 [''al-1'', ''bl-exp-1'']) blockedReq
      (listed [expiredEntry, allowEntry])) = 0
   \<and> map Name (result_factors (Score ToUpperASCII ieee (always 100 [''al-1'', ''bl-exp-1'']) blockedReq
      (listed [expiredEntry, allowEntry]))) = [''allowlist_match'']"
proof -
  have hit1: "fst (checkLists (always 100 [''al-1'', ''bl-1'']) blockedReq
      (listed [blockEntry, allowEntry])) = Some blockEntry"
    by code_simp
  have hit2: "fst (checkLists (always 100 [''al-1'', ''bl-exp-1'']) blockedReq
      (listed [expiredEntry, allowEntry])) = Some allowEntry"
    by code_simp
  have kinds: "ListType blockEntry = ListBlock" "ListType allowEntry = ListAllow"
    by (simp_all add: blockEntry_def allowEntry_def)
  note block = override_check [where envs = "always 100 [''al-1'', ''bl-1'']" and rq = blockedReq
      and s = "listed [blockEntry, allowEntry]" and hit = blockEntry and ToUpper = ToUpperASCII
      and fl = ieee]
  note allow = override_check [where envs = "always 100 [''al-1'', ''bl-exp-1'']" and rq = blockedReq
      and s = "listed [expiredEntry, allowEntry]" and hit = allowEntry and ToUpper = ToUpperASCII
      and fl = ieee]
  show ?thesis
    using block allow hit1 hit2 kinds by blast
qed

text \<open>
  C10. The two ways of reading the blocklist disagree on an entry whose expiry is exactly
  the clock reading: \<open>CheckBlocklist\<close> does not skip it, since it skips only an expiry
  before now, so a lookup of the entry's type and value finds an entry (the entry itself
  when no other entry has this type and value), while \<open>ListBlocklistEntries\<close> leaves
  it out, since it lists only an expiry after now.
\<close>

theorem expiry_boundary_inconsistent:
  assumes "blocklist s k = Some entry" and "k \<in> set ks" and "ExpiresAt entry = Some now"
  shows "fst (CheckBlocklist now ks (Type entry) (Value entry) s) \<noteq> None
    \<and> ((\<forall>k' other. k' \<in> set ks \<and> blocklist s k' = Some other \<and> Type other = Type entry
            \<and> Value other = Value entry \<longrightarrow> other = entry)
         \<longrightarrow> fst (CheckBlocklist now ks (Type entry) (Value entry) s) = Some entry)
    \<and> entry \<notin> set (fst (ListBlocklistEntries now ks s))"
proof -
  let ?es = "range_values (blocklist s) ks"
  let ?P = "matches_unexpired now (Type entry) (Value entry)"
  have mem: "entry \<in> set ?es"
    using assms(1,2) by (auto simp: set_range_values)
  have P: "?P entry"
    using assms(3) by (simp add: matches_unexpired_def expiry_in_past_def)
  have res: "fst (CheckBlocklist now ks (Type entry) (Value entry) s) = find ?P ?es"
    by (simp add: CheckBlocklist_def CheckBlocklist_loop_find)
  have 1: "find ?P ?es \<noteq> None"
    using mem P by (auto simp: find_None_iff)
  have 2: "find ?P ?es = Some entry"
    if uniq: "\<forall>k' other. k' \<in> set ks \<and> blocklist s k' = Some other \<and> Type other = Type entry
            \<and> Value other = Value entry \<longrightarrow> other = entry"
  proof -
    from 1 obtain other where f: "find ?P ?es = Some other" by auto
    then have "other \<in> set ?es" and "?P other"
      by (auto simp: find_Some_iff)
    then have "other = entry"
      using uniq by (auto simp: set_range_values matches_unexpired_def)
    then show ?thesis using f by simp
  qed
  have 3: "entry \<notin> set (fst (ListBlocklistEntries now ks s))"
    using assms(3) by (simp add: ListBlocklistEntries_def time_After_def)
  show ?thesis
    using 1 2 3 res by simp
qed

theorem expiry_boundary_inconsistent_witness:
  "fst (CheckBlocklist 100 [''bl-edge''] EntityIP ''1.2.3.4'' (listed [edgeEntry])) = Some edgeEntry
   \<and> edgeEntry \<notin> set (fst (ListBlocklistEntries 100 [''bl-edge''] (listed [edgeEntry])))"
proof -
  have h: "blocklist (listed [edgeEntry]) ''bl-edge'' = Some edgeEntry"
    "''bl-edge'' \<in> set [''bl-edge'']" "ExpiresAt edgeEntry = Some 100"
    by (simp_all add: listed_def SaveBlocklistEntry_def New_def edgeEntry_def)
  have f: "Type edgeEntry = EntityIP" "Value edgeEntry = ''1.2.3.4''"
    by (simp_all add: edgeEntry_def)
  have u: "\<forall>k' other. k' \<in> set [''bl-edge''] \<and> blocklist (listed [edgeEntry]) k' = Some other
      \<and> Type other = Type edgeEntry \<and> Value other = Value edgeEntry \<longrightarrow> other = edgeEntry"
    using h(1) by simp
  show ?thesis
    using expiry_boundary_inconsistent [OF h] u unfolding f by blast
qed

section \<open>The purchase-behaviour rule\<close>

text \<open>
  C9, as the code has it. When the e-mail address has at least one record in the 24-hour
  list of the context and the mean of the amounts of these records as the code computes
  it, in \<open>float64\<close> and in the order of the list, is not above 0, the
  purchase-behaviour rule gives no factor at all, whatever the request and its amount
  are: neither an amount anomaly nor \<open>first_transaction\<close>. This holds for every
  arithmetic \<open>fl\<close>: the division by the mean is made only when the mean is above 0.
\<close>

theorem no_factor_when_computed_mean_not_positive:
  assumes "emailLast24h ctx \<noteq> []"
    and "\<not> float_gt (computed_mean fl (emailLast24h ctx)) (Finite 0)"
  shows "rulePurchaseBehaviour fl (ctx\<lparr>req := rq\<rparr>) = []"
  using assms by (simp add: rulePurchaseBehaviour_def computed_mean_def Let_def)

theorem no_factor_when_computed_mean_not_positive_witness:
  "emailLast24h (fst (buildContext bigReq freeStore)) \<noteq> []
   \<and> computed_mean ieee (emailLast24h (fst (buildContext bigReq freeStore))) = Finite 0
   \<and> Amount bigReq = Finite 1000000
   \<and> rulePurchaseBehaviour ieee (fst (buildContext bigReq freeStore)) = []"
proof -
  have ev: "length (emailLast24h (fst (buildContext bigReq freeStore))) = 1
    \<and> computed_mean ieee (emailLast24h (fst (buildContext bigReq freeStore))) = Finite 0
    \<and> req (fst (buildContext bigReq freeStore)) = bigReq
    \<and> Amount bigReq = Finite 1000000"
    by code_simp
  then have ne: "emailLast24h (fst (buildContext bigReq freeStore)) \<noteq> []"
    by auto
  have mean: "\<not> float_gt (computed_mean ieee (emailLast24h (fst (buildContext bigReq freeStore))))
      (Finite 0)"
    using ev by (simp add: float_gt_def)
  have "rulePurchaseBehaviour ieee ((fst (buildContext bigReq freeStore))\<lparr>req := bigReq\<rparr>) = []"
    by (rule no_factor_when_computed_mean_not_positive [OF ne mean])
  moreover have "(fst (buildContext bigReq freeStore))\<lparr>req := bigReq\<rparr>
      = fst (buildContext bigReq freeStore)"
    using ev by (metis ruleContext.surjective ruleContext.update_convs(1))
  ultimately show ?thesis
    using ne ev by simp
qed

text \<open>
  C9 as stated fails. The four amounts of the records in \<open>cancelStore\<close> have the mean 0,
  which is not above 0. Added in \<open>float64\<close> in the order of the list they give 1, since
  \<open>- 10 ^ 16 - 1\<close> rounds to \<open>- 10 ^ 16\<close>; the mean that the code computes is a
  quarter, and for a request of 1000000 the rule gives \<open>amount_anomaly_extreme\<close>.
\<close>

theorem no_factor_when_computed_mean_not_positive_counterexample:
  "map Amount (emailLast24h (fst (buildContext bigReq cancelStore)))
     = [Finite (- 10000000000000000), Finite (- 1), Finite 10000000000000000, Finite 1]
   \<and> exact_mean (emailLast24h (fst (buildContext bigReq cancelStore))) = 0
   \<and> computed_mean ieee (emailLast24h (fst (buildContext bigReq cancelStore))) = Finite (1 / 4)
   \<and> map Name (rulePurchaseBehaviour ieee (fst (buildContext bigReq cancelStore)))
       = [''amount_anomaly_extreme'']"
  by code_simp

section \<open>Queries by entity\<close>

lemma set_filterByTime_loop:
  "set (filterByTime_loop m ids since)
     = {tx. \<exists>k \<in> set ids. m k = Some tx \<and> since \<le> Timestamp tx}"
  by (induction ids) (auto simp: time_Before_def split: option.splits)

lemma range_values_ran: "range_order ks m \<Longrightarrow> set (range_values m ks) = ran m"
  by (auto simp: set_range_values range_order_def ran_def dom_def)

lemma set_GetAllTransactions:
  assumes "range_order ks (transactions s)"
  shows "set (fst (GetAllTransactions ks since s))
           = {tx \<in> ran (transactions s). since \<le> Timestamp tx}"
  using range_values_ran [OF assms] by (auto simp: GetAllTransactions_def time_Before_def)

lemma set_GetTransactionsByEmail:
  assumes "index_exact s"
  shows "set (fst (GetTransactionsByEmail v since s))
           = {tx \<in> ran (transactions s). UserEmail tx = v \<and> since \<le> Timestamp tx}"
proof -
  have fwd: "\<And>k tx. transactions s k = Some tx \<Longrightarrow> k \<in> set (ids_at (txByEmail s) (UserEmail tx))"
    using assms unfolding index_exact_def by blast
  have bwd: "\<And>k. k \<in> set (ids_at (txByEmail s) v) \<Longrightarrow>
      \<exists>tx. transactions s k = Some tx \<and> UserEmail tx = v"
    using assms unfolding index_exact_def by blast
  show ?thesis
    unfolding GetTransactionsByEmail_def filterByTime_def fst_conv set_filterByTime_loop
    using fwd bwd by (fastforce simp: ran_def)
qed

lemma set_GetTransactionsByIP:
  assumes "index_exact s"
  shows "set (fst (GetTransactionsByIP v since s))
           = {tx \<in> ran (transactions s). IPAddress tx = v \<and> since \<le> Timestamp tx}"
proof -
  have fwd: "\<And>k tx. transactions s k = Some tx \<Longrightarrow> k \<in> set (ids_at (txByIP s) (IPAddress tx))"
    using assms unfolding index_exact_def by blast
  have bwd: "\<And>k. k \<in> set (ids_at (txByIP s) v) \<Longrightarrow>
      \<exists>tx. transactions s k = Some tx \<and> IPAddress tx = v"
    using assms unfolding index_exact_def by blast
  show ?thesis
    unfolding GetTransactionsByIP_def filterByTime_def fst_conv set_filterByTime_loop
    using fwd bwd by (fastforce simp: ran_def)
qed

lemma set_GetTransactionsByDevice:
  assumes "index_exact s"
  shows "set (fst (GetTransactionsByDevice v since s))
           = {tx \<in> ran (transactions s). DeviceFingerprint tx = v \<and> since \<le> Timestamp tx}"
proof -
  have fwd: "\<And>k tx. transactions s k = Some tx \<Longrightarrow>
      k \<in> set (ids_at (txByDevice s) (DeviceFingerprint tx))"
    using assms unfolding index_exact_def by blast
  have bwd: "\<And>k. k \<in> set (ids_at (txByDevice s) v) \<Longrightarrow>
      \<exists>tx. transactions s k = Some tx \<and> DeviceFingerprint tx = v"
    using assms unfolding index_exact_def by blast
  show ?thesis
    unfolding GetTransactionsByDevice_def filterByTime_def fst_conv set_filterByTime_loop
    using fwd bwd by (fastforce simp: ran_def)
qed

lemma set_GetTransactionsByBIN:
  assumes "index_exact s"
  shows "set (fst (GetTransactionsByBIN v since s))
           = {tx \<in> ran (transactions s). CardBIN tx = v \<and> since \<le> Timestamp tx}"
proof -
  have fwd: "\<And>k tx. transactions s k = Some tx \<Longrightarrow> k \<in> set (ids_at (txByBIN s) (CardBIN tx))"
    using assms unfolding index_exact_def by blast
  have bwd: "\<And>k. k \<in> set (ids_at (txByBIN s) v) \<Longrightarrow>
      \<exists>tx. transactions s k = Some tx \<and> CardBIN tx = v"
    using assms unfolding index_exact_def by blast
  show ?thesis
    unfolding GetTransactionsByBIN_def filterByTime_def fst_conv set_filterByTime_loop
    using fwd bwd by (fastforce simp: ran_def)
qed

lemma entity_types_distinct:
  "EntityEmail \<noteq> EntityIP" "EntityEmail \<noteq> EntityBIN" "EntityEmail \<noteq> EntityDevice"
  "EntityIP \<noteq> EntityBIN" "EntityIP \<noteq> EntityDevice" "EntityBIN \<noteq> EntityDevice"
  by (simp_all add: EntityEmail_def EntityIP_def EntityBIN_def EntityDevice_def)

lemma set_queryByEntity:
  assumes "index_exact s"
    and "entityType \<in> {EntityEmail, EntityIP, EntityBIN, EntityDevice}"
  shows "set (fst (queryByEntity entityType v since s))
           = {tx \<in> ran (transactions s). entityField entityType tx = v \<and> since \<le> Timestamp tx}"
  using assms(2) entity_types_distinct
  by (auto simp: queryByEntity_def entityField_def set_GetTransactionsByEmail [OF assms(1)]
      set_GetTransactionsByIP [OF assms(1)] set_GetTransactionsByDevice [OF assms(1)]
      set_GetTransactionsByBIN [OF assms(1)])

lemma snd_queryByEntity: "snd (queryByEntity entityType v since s) = s"
  by (simp add: queryByEntity_def store_reads_frame)

lemma snd_GetAllTransactions: "snd (GetAllTransactions ks since s) = s"
  by (simp add: GetAllTransactions_def)

text \<open>
  C6. In a store reached from a new one by any sequence of calls, for each of the four
  entity types, every value and every time \<open>since\<close>, the records that
  \<open>queryByEntity\<close> returns are exactly those records of \<open>GetAllTransactions since\<close>
  whose field for the entity type has the value; they are the stored records with this
  value stamped at or after \<open>since\<close>, a stamp equal to \<open>since\<close> included. Asked
  again in the store that the first call leaves, each query returns the same set of
  records, whatever the order in which the primary table is iterated.
\<close>

theorem queryByEntity_filters_queryAll:
  assumes "entityType \<in> {EntityEmail, EntityIP, EntityBIN, EntityDevice}"
    and "range_order ks (transactions (run ops New))"
    and "range_order ks' (transactions (run ops New))"
  shows "set (fst (queryByEntity entityType v since (run ops New)))
           = {tx \<in> set (fst (GetAllTransactions ks since (run ops New))). entityField entityType tx = v}
    \<and> set (fst (queryByEntity entityType v since (run ops New)))
           = {tx \<in> ran (transactions (run ops New)).
                entityField entityType tx = v \<and> since \<le> Timestamp tx}
    \<and> queryByEntity entityType v since (snd (queryByEntity entityType v since (run ops New)))
           = queryByEntity entityType v since (run ops New)
    \<and> set (fst (GetAllTransactions ks' since (snd (GetAllTransactions ks since (run ops New)))))
           = set (fst (GetAllTransactions ks since (run ops New)))"
proof -
  have inv: "index_exact (run ops New)"
    by (rule index_exact_run [OF index_exact_New])
  have q: "set (fst (queryByEntity entityType v since (run ops New)))
           = {tx \<in> ran (transactions (run ops New)).
                entityField entityType tx = v \<and> since \<le> Timestamp tx}"
    by (rule set_queryByEntity [OF inv assms(1)])
  have a: "set (fst (GetAllTransactions ks since (run ops New)))
           = {tx \<in> ran (transactions (run ops New)). since \<le> Timestamp tx}"
    by (rule set_GetAllTransactions [OF assms(2)])
  have a': "set (fst (GetAllTransactions ks' since (run ops New)))
           = {tx \<in> ran (transactions (run ops New)). since \<le> Timestamp tx}"
    by (rule set_GetAllTransactions [OF assms(3)])
  have 1: "set (fst (queryByEntity entityType v since (run ops New)))
           = {tx \<in> set (fst (GetAllTransactions ks since (run ops New))). entityField entityType tx = v}"
    unfolding q a by auto
  show ?thesis
    using 1 q a a' by (simp add: snd_queryByEntity snd_GetAllTransactions)
qed

theorem queryByEntity_filters_queryAll_witness:
  "range_order [''e-in-1'', ''e-out-1''] (transactions windowStore)
   \<and> range_order [''e-out-1'', ''e-in-1''] (transactions windowStore)
   \<and> fst (queryByEntity EntityEmail ''user@x.com'' 1000 windowStore)
       = [newTx ''e-in-1'' ''user@x.com'' ''1.1.1.1'' ''d1'' ''111'' 1000]
   \<and> set (fst (queryByEntity EntityEmail ''user@x.com'' 1000 windowStore))
       = {tx \<in> set (fst (GetAllTransactions [''e-in-1'', ''e-out-1''] 1000 windowStore)).
            entityField EntityEmail tx = ''user@x.com''}
   \<and> set (fst (GetAllTransactions [''e-out-1'', ''e-in-1''] 1000
              (snd (GetAllTransactions [''e-in-1'', ''e-out-1''] 1000 windowStore))))
       = set (fst (GetAllTransactions [''e-in-1'', ''e-out-1''] 1000 windowStore))"
proof -
  have o1: "range_order [''e-in-1'', ''e-out-1''] (transactions (run
      [OpSaveTransaction (newTx ''e-in-1'' ''user@x.com'' ''1.1.1.1'' ''d1'' ''111'' 1000),
       OpSaveTransaction (newTx ''e-out-1'' ''user@x.com'' ''1.1.1.1'' ''d1'' ''111'' 10)] New))"
    by (auto simp: range_order_def SaveTransaction_def New_def newTx_def)
  have o2: "range_order [''e-out-1'', ''e-in-1''] (transactions (run
      [OpSaveTransaction (newTx ''e-in-1'' ''user@x.com'' ''1.1.1.1'' ''d1'' ''111'' 1000),
       OpSaveTransaction (newTx ''e-out-1'' ''user@x.com'' ''1.1.1.1'' ''d1'' ''111'' 10)] New))"
    by (auto simp: range_order_def SaveTransaction_def New_def newTx_def)
  have ty: "EntityEmail \<in> {EntityEmail, EntityIP, EntityBIN, EntityDevice}"
    by simp
  have ev: "fst (queryByEntity EntityEmail ''user@x.com'' 1000 windowStore)
       = [newTx ''e-in-1'' ''user@x.com'' ''1.1.1.1'' ''d1'' ''111'' 1000]"
    by code_simp
  show ?thesis
    using queryByEntity_filters_queryAll [OF ty o1 o2, of "''user@x.com''" 1000] o1 o2 ev
    unfolding windowStore_def by simp
qed

section \<open>The first transaction of an e-mail address\<close>

lemma filterByTime_loop_later:
  "since \<le> since' \<Longrightarrow> filterByTime_loop m ids since = [] \<Longrightarrow> filterByTime_loop m ids since' = []"
  by (induction ids) (auto simp: time_Before_def split: option.splits if_splits)

lemma GetTransactionsByEmail_later:
  assumes "since \<le> since'" and "fst (GetTransactionsByEmail v since s) = []"
  shows "fst (GetTransactionsByEmail v since' s) = []"
  using assms filterByTime_loop_later [of since since' "transactions s" "ids_at (txByEmail s) v"]
  by (simp add: GetTransactionsByEmail_def filterByTime_def)

lemma first_transaction_context:
  assumes "fst (GetTransactionsByEmail (UserEmail rq) (time_Add (Timestamp rq) (- 24 * Hour)) s) = []"
  shows "emailLast24h (fst (buildContext rq s)) = []"
    and "emailLast10m (fst (buildContext rq s)) = []"
    and "req (fst (buildContext rq s)) = rq"
proof -
  have "time_Add (Timestamp rq) (- 24 * Hour) \<le> time_Add (Timestamp rq) (- 10 * Minute)"
    by (simp add: time_Add_def Hour_def Minute_def)
  from GetTransactionsByEmail_later [OF this assms]
  show "emailLast10m (fst (buildContext rq s)) = []"
    by (simp add: buildContext_eq)
  show "emailLast24h (fst (buildContext rq s)) = []"
    using assms by (simp add: buildContext_eq)
  show "req (fst (buildContext rq s)) = rq"
    by (simp add: buildContext_eq)
qed

lemma Score_no_hit:
  assumes "fst (checkLists envs rq s) = None"
  shows "fst (Score ToUpper fl envs rq s) = fst (Score_rules ToUpper fl rq s)"
proof (cases "checkLists envs rq s")
  case (Pair hit s1)
  then have "hit = None" and "s1 = s"
    using assms snd_checkLists [of envs rq s] by simp_all
  then show ?thesis
    using Pair by (simp add: Score_def)
qed

text \<open>
  C7, as the code has it. When the store returns no record of the request's e-mail address
  stamped at or after 24 hours before the request (a record stamped after the request
  counts as history too), the purchase-behaviour rule gives exactly one factor,
  \<open>first_transaction\<close>, with delta 15 when the amount is above 50 and delta 5
  otherwise. In particular, for an amount of 30, no override hit and no other adverse
  signal, \<open>Score\<close> returns this one factor with delta 5 and the score 5, which is
  recommended for approval at low risk.
\<close>

theorem first_transaction_rule:
  assumes "fst (GetTransactionsByEmail (UserEmail rq) (time_Add (Timestamp rq) (- 24 * Hour)) s) = []"
  shows "map Name (rulePurchaseBehaviour fl (fst (buildContext rq s))) = [''first_transaction'']
    \<and> map ScoreDelta (rulePurchaseBehaviour fl (fst (buildContext rq s)))
        = [if float_gt (Amount rq) (Finite 50) then 15 else 5]
    \<and> (Amount rq = Finite 30 \<and> fst (checkLists envs rq s) = None
        \<and> no_other_signal ToUpper fl (fst (buildContext rq s)) \<longrightarrow>
          map Name (result_factors (Score ToUpper fl envs rq s)) = [''first_transaction'']
          \<and> map ScoreDelta (result_factors (Score ToUpper fl envs rq s)) = [5]
          \<and> result_score (Score ToUpper fl envs rq s) = 5
          \<and> Recommend (result_score (Score ToUpper fl envs rq s)) = (ActionApprove, RiskLow))"
proof -
  note ctx = first_transaction_context [OF assms]
  have names: "map Name (rulePurchaseBehaviour fl (fst (buildContext rq s))) = [''first_transaction'']"
    by (simp add: rulePurchaseBehaviour_def Let_def ctx)
  have deltas: "map ScoreDelta (rulePurchaseBehaviour fl (fst (buildContext rq s)))
        = [if float_gt (Amount rq) (Finite 50) then 15 else 5]"
    by (simp add: rulePurchaseBehaviour_def Let_def ctx)
  have email: "ruleVelocityEmail (fst (buildContext rq s)) = []"
    by (simp add: ruleVelocityEmail_def Let_def ctx)
  have scenario: "map Name (result_factors (Score ToUpper fl envs rq s)) = [''first_transaction'']
          \<and> map ScoreDelta (result_factors (Score ToUpper fl envs rq s)) = [5]
          \<and> result_score (Score ToUpper fl envs rq s) = 5
          \<and> Recommend (result_score (Score ToUpper fl envs rq s)) = (ActionApprove, RiskLow)"
    if amount: "Amount rq = Finite 30" and no_hit: "fst (checkLists envs rq s) = None"
      and quiet: "no_other_signal ToUpper fl (fst (buildContext rq s))"
  proof -
    have factors: "result_factors (Score ToUpper fl envs rq s)
        = rulePurchaseBehaviour fl (fst (buildContext rq s))"
      using quiet email
      by (simp add: result_factors_def Score_no_hit [OF no_hit] Score_rules_eq Let_def rules_def
          no_other_signal_def)
    have d: "map ScoreDelta (rulePurchaseBehaviour fl (fst (buildContext rq s))) = [5]"
      using deltas amount by (simp add: float_gt_def)
    have score: "result_score (Score ToUpper fl envs rq s) = 5"
      using quiet email d
      by (simp add: result_score_def Score_no_hit [OF no_hit] Score_rules_eq Let_def rules_def
          no_other_signal_def clamp_def)
    show ?thesis
      using factors names d score
      by (simp add: Recommend_def ThresholdApprove_def)
  qed
  show ?thesis
    using names deltas scenario by blast
qed

theorem first_transaction_rule_witness:
  "fst (GetTransactionsByEmail (UserEmail smallReq) (time_Add (Timestamp smallReq) (- 24 * Hour)) New) = []
   \<and> Amount smallReq = Finite 30
   \<and> map Name (result_factors (Score ToUpperASCII ieee no_entries smallReq New)) = [''first_transaction'']
   \<and> map ScoreDelta (result_factors (Score ToUpperASCII ieee no_entries smallReq New)) = [5]
   \<and> result_score (Score ToUpperASCII ieee no_entries smallReq New) = 5
   \<and> Recommend (result_score (Score ToUpperASCII ieee no_entries smallReq New)) = (ActionApprove, RiskLow)"
proof -
  have empty: "fst (GetTransactionsByEmail (UserEmail smallReq)
      (time_Add (Timestamp smallReq) (- 24 * Hour)) New) = []"
    by (simp add: GetTransactionsByEmail_def filterByTime_def New_def ids_at_def)
  have amount: "Amount smallReq = Finite 30"
    by (simp add: smallReq_def)
  have no_hit: "fst (checkLists no_entries smallReq New) = None"
    by code_simp
  have quiet: "no_other_signal ToUpperASCII ieee (fst (buildContext smallReq New))"
    by code_simp
  show ?thesis
    using first_transaction_rule [OF empty, where envs = no_entries and ToUpper = ToUpperASCII
        and fl = ieee] empty amount no_hit quiet
    by blast
qed

text \<open>
  C7 as stated fails. In \<open>laterStore\<close> the only record of the e-mail address is stamped
  one hour after the request, so the address has no record in the 24 hours before the
  request; the lookup since 24 hours before the request returns it all the same, and the
  rule gives no factor.
\<close>

theorem first_transaction_rule_counterexample:
  "stored_in_24h_before laterStore (UserEmail smallReq) (Timestamp smallReq) = []
   \<and> map Timestamp (emailLast24h (fst (buildContext smallReq laterStore)))
       = [Timestamp smallReq + Hour]
   \<and> rulePurchaseBehaviour ieee (fst (buildContext smallReq laterStore)) = []
   \<and> \<not> hasFactorName (result_factors (Score ToUpperASCII ieee no_entries smallReq laterStore))
         ''first_transaction''"
  by code_simp

section \<open>The geography rule\<close>

lemma hasFactorName_append:
  "hasFactorName (xs @ ys) name \<longleftrightarrow> hasFactorName xs name \<or> hasFactorName ys name"
  by (auto simp: hasFactorName_def)

lemma hasFactorName_Nil: "\<not> hasFactorName [] name"
  by (simp add: hasFactorName_def)

lemma other_rules_not_geo_ip_card:
  "\<not> hasFactorName (ruleVelocityEmail ctx) ''geo_ip_card_mismatch''"
  "\<not> hasFactorName (ruleVelocityIP ctx) ''geo_ip_card_mismatch''"
  "\<not> hasFactorName (ruleVelocityDevice ctx) ''geo_ip_card_mismatch''"
  "\<not> hasFactorName (ruleVelocityCardCycling ctx) ''geo_ip_card_mismatch''"
  "\<not> hasFactorName (ruleCardBIN ctx) ''geo_ip_card_mismatch''"
  "\<not> hasFactorName (ruleTiming ctx) ''geo_ip_card_mismatch''"
  by (auto simp: hasFactorName_def ruleVelocityEmail_def ruleVelocityIP_def
      ruleVelocityDevice_def ruleVelocityCardCycling_def ruleCardBIN_def ruleTiming_def Let_def
      split: if_splits)

lemma float_rules_not_geo_ip_card:
  "\<not> hasFactorName (ruleAccountAge fl ctx) ''geo_ip_card_mismatch''"
  "\<not> hasFactorName (rulePurchaseBehaviour fl ctx) ''geo_ip_card_mismatch''"
  by (auto simp: hasFactorName_def ruleAccountAge_def rulePurchaseBehaviour_def Let_def
      split: if_splits)

lemma ruleGeography_ip_card:
  "hasFactorName (ruleGeography ToUpper ctx) ''geo_ip_card_mismatch''
     \<longleftrightarrow> ToUpper (IPCountry (req ctx)) \<noteq> [] \<and> ToUpper (CardCountry (req ctx)) \<noteq> []
          \<and> ToUpper (IPCountry (req ctx)) \<noteq> ToUpper (CardCountry (req ctx))"
  by (auto simp: hasFactorName_def ruleGeography_def Let_def split: if_splits)

lemma ruleGeography_ip_card_delta:
  "f \<in> set (ruleGeography ToUpper ctx) \<Longrightarrow> Name f = ''geo_ip_card_mismatch'' \<Longrightarrow> ScoreDelta f = 25"
  by (auto simp: ruleGeography_def Let_def split: if_splits)


lemma rules_geo_ip_card:
  "hasFactorName (concat (map (\<lambda>rule. rule ctx) (rules ToUpper fl))) ''geo_ip_card_mismatch''
     \<longleftrightarrow> hasFactorName (ruleGeography ToUpper ctx) ''geo_ip_card_mismatch''"
  by (simp add: rules_def hasFactorName_append hasFactorName_Nil other_rules_not_geo_ip_card
      float_rules_not_geo_ip_card)

lemma rules_geo_ip_card_delta:
  assumes "f \<in> set (concat (map (\<lambda>rule. rule ctx) (rules ToUpper fl)))"
    and "Name f = ''geo_ip_card_mismatch''"
  shows "ScoreDelta f = 25"
proof -
  have "hasFactorName (ruleGeography ToUpper ctx) ''geo_ip_card_mismatch'' \<and> f \<in> set (ruleGeography ToUpper ctx)"
    using assms other_rules_not_geo_ip_card [of ctx] float_rules_not_geo_ip_card [of fl ctx]
    by (auto simp: rules_def hasFactorName_def)
  then show ?thesis
    using assms(2) ruleGeography_ip_card_delta by blast
qed

text \<open>
  C8, as the code has it. For a request scored without an override hit, the factors
  contain \<open>geo_ip_card_mismatch\<close> if and only if the origin country and the card
  country, both upper-cased, are both non-empty and different; the factor comes from the
  geography rule alone, and its delta is 25.
\<close>

theorem geo_ip_card_mismatch_iff:
  assumes "fst (checkLists envs rq s) = None"
  shows "(hasFactorName (result_factors (Score ToUpper fl envs rq s)) ''geo_ip_card_mismatch''
            \<longleftrightarrow> ToUpper (IPCountry rq) \<noteq> [] \<and> ToUpper (CardCountry rq) \<noteq> []
                 \<and> ToUpper (IPCountry rq) \<noteq> ToUpper (CardCountry rq))
    \<and> (hasFactorName (result_factors (Score ToUpper fl envs rq s)) ''geo_ip_card_mismatch''
            \<longleftrightarrow> hasFactorName (ruleGeography ToUpper (fst (buildContext rq s))) ''geo_ip_card_mismatch'')
    \<and> (\<forall>f \<in> set (result_factors (Score ToUpper fl envs rq s)).
          Name f = ''geo_ip_card_mismatch'' \<longrightarrow> ScoreDelta f = 25)"
proof -
  have factors: "result_factors (Score ToUpper fl envs rq s)
      = concat (map (\<lambda>rule. rule (fst (buildContext rq s))) (rules ToUpper fl))"
    by (simp add: result_factors_def Score_no_hit [OF assms] Score_rules_eq Let_def)
  have rq: "req (fst (buildContext rq s)) = rq"
    by (simp add: buildContext_eq)
  show ?thesis
    unfolding factors rules_geo_ip_card
    using ruleGeography_ip_card [of ToUpper "fst (buildContext rq s)"]
      rules_geo_ip_card_delta [of _ "fst (buildContext rq s)" ToUpper fl]
    by (auto simp: rq)
qed

theorem geo_ip_card_mismatch_iff_witness:
  "fst (checkLists no_entries fraudReq New) = None
   \<and> ToUpperASCII (IPCountry fraudReq) = ''RU''
   \<and> ToUpperASCII (CardCountry fraudReq) = ''US''
   \<and> hasFactorName (result_factors (Score ToUpperASCII ieee no_entries fraudReq New)) ''geo_ip_card_mismatch''
   \<and> fst (checkLists no_entries noOriginReq New) = None
   \<and> ToUpperASCII (IPCountry noOriginReq) = []
   \<and> \<not> hasFactorName (result_factors (Score ToUpperASCII ieee no_entries noOriginReq New)) ''geo_ip_card_mismatch''"
proof -
  have no_hit: "fst (checkLists no_entries fraudReq New) = None"
    "fst (checkLists no_entries noOriginReq New) = None"
    by code_simp+
  have codes: "ToUpperASCII (IPCountry fraudReq) = ''RU''" "ToUpperASCII (CardCountry fraudReq) = ''US''"
    "ToUpperASCII (IPCountry noOriginReq) = []"
    by code_simp+
  show ?thesis
    using geo_ip_card_mismatch_iff [OF no_hit(1), of ToUpperASCII ieee]
      geo_ip_card_mismatch_iff [OF no_hit(2), of ToUpperASCII ieee] no_hit codes
    by simp
qed

text \<open>
  C8 as stated fails. A request with no origin country and a card of the United States
  has two different country codes and gets no \<open>geo_ip_card_mismatch\<close>.
\<close>

theorem geo_ip_card_mismatch_counterexample:
  "IPCountry noOriginReq \<noteq> CardCountry noOriginReq
   \<and> fst (checkLists no_entries noOriginReq New) = None
   \<and> \<not> hasFactorName (result_factors (Score ToUpperASCII ieee no_entries noOriginReq New))
         ''geo_ip_card_mismatch''"
  by code_simp

end
